theory Spec2Isabelle
  imports Complex_Main
begin

section \<open>JavaScript values\<close>

text \<open>
  The resume analyser is TypeScript running in a browser.  The repository holds two
  versions of its service module; the model follows the later one, whose result carries
  the five scores and which the application with storage and history uses, and keeps of
  the earlier one the two places where it decides differently (the last section of the
  definitions).  The response normaliser works on whatever \<^verbatim>\<open>JSON.parse\<close> returns,
  so the model starts with the values of the language.

  A JavaScript number is an IEEE 754 double.  The model keeps the three special values and
  represents a finite double by the rational it denotes; the two zeros are identified (the
  code never divides by a zero, the only way to tell them apart).  A decoded number is a
  double; the type does not say so, and what is proved for every rational holds for them.
\<close>

datatype jsnum = NaN | PInf | NInf | Fin rat

text \<open>
  The result of an addition or a division is rounded to the nearest double.  The finite
  doubles are the numbers \<open>m * 2 ^ k / 2 ^ 1074\<close> with \<open>\<bar>m\<bar> < 2 ^ 53\<close> and
  \<open>k \<le> 2045\<close>.  For a rational \<open>x\<close>, \<open>ulp_exp\<close> finds the exponent \<open>k\<close> of the grid
  around \<open>x\<close> (the least one with \<open>\<bar>x\<bar> * 2 ^ 1074 < 2 ^ (k + 53)\<close>, at most 2045);
  \<open>x\<close> is rounded to the nearest multiple of \<open>2 ^ k / 2 ^ 1074\<close>, a tie going to the even
  multiple, and to an infinity when that multiple reaches \<open>2 ^ 1024\<close>.
\<close>

definition round_half_even :: "rat \<Rightarrow> int" where
  "round_half_even q =
     (let f = \<lfloor>q\<rfloor>; d = q - of_int f
      in if d < 1 / 2 then f else if 1 / 2 < d then f + 1 else if even f then f else f + 1)"

function ulp_exp :: "rat \<Rightarrow> nat \<Rightarrow> nat" where
  "ulp_exp s k = (if k < 2045 \<and> 2 ^ (k + 53) \<le> \<bar>s\<bar> then ulp_exp s (Suc k) else k)"
  by pat_completeness auto
termination
  by (relation "measure (\<lambda>(s, k). 2045 - k)") auto

definition to_double :: "rat \<Rightarrow> jsnum" where
  "to_double x =
     (let s = x * 2 ^ 1074;
          k = ulp_exp s 0;
          y = of_int (round_half_even (s / 2 ^ k)) * 2 ^ k / 2 ^ 1074
      in if 2 ^ 1024 \<le> y then PInf else if y \<le> - (2 ^ 1024) then NInf else Fin y)"

text \<open>\<^verbatim>\<open>a + b\<close> on numbers.\<close>

definition js_add :: "jsnum \<Rightarrow> jsnum \<Rightarrow> jsnum" where
  "js_add a b =
     (case (a, b) of
        (NaN, _) \<Rightarrow> NaN
      | (_, NaN) \<Rightarrow> NaN
      | (PInf, NInf) \<Rightarrow> NaN
      | (NInf, PInf) \<Rightarrow> NaN
      | (PInf, _) \<Rightarrow> PInf
      | (_, PInf) \<Rightarrow> PInf
      | (NInf, _) \<Rightarrow> NInf
      | (_, NInf) \<Rightarrow> NInf
      | (Fin x, Fin y) \<Rightarrow> to_double (x + y))"

text \<open>\<^verbatim>\<open>a / d\<close> for a positive finite divisor; the code divides by \<open>2\<close> or \<open>1\<close> only.\<close>

definition js_div_pos :: "jsnum \<Rightarrow> rat \<Rightarrow> jsnum" where
  "js_div_pos a d = (case a of Fin x \<Rightarrow> to_double (x / d) | _ \<Rightarrow> a)"

text \<open>\<^verbatim>\<open>Math.round\<close>: the nearest integer, a tie going up.\<close>

definition js_round :: "jsnum \<Rightarrow> jsnum" where
  "js_round a = (case a of Fin x \<Rightarrow> Fin (of_int \<lfloor>x + 1 / 2\<rfloor>) | _ \<Rightarrow> a)"

text \<open>\<^verbatim>\<open>Math.min\<close> and \<^verbatim>\<open>Math.max\<close> of two numbers.\<close>

definition js_min :: "jsnum \<Rightarrow> jsnum \<Rightarrow> jsnum" where
  "js_min a b =
     (case (a, b) of
        (NaN, _) \<Rightarrow> NaN
      | (_, NaN) \<Rightarrow> NaN
      | (NInf, _) \<Rightarrow> NInf
      | (_, NInf) \<Rightarrow> NInf
      | (PInf, _) \<Rightarrow> b
      | (_, PInf) \<Rightarrow> a
      | (Fin x, Fin y) \<Rightarrow> Fin (min x y))"

definition js_max :: "jsnum \<Rightarrow> jsnum \<Rightarrow> jsnum" where
  "js_max a b =
     (case (a, b) of
        (NaN, _) \<Rightarrow> NaN
      | (_, NaN) \<Rightarrow> NaN
      | (PInf, _) \<Rightarrow> PInf
      | (_, PInf) \<Rightarrow> PInf
      | (NInf, _) \<Rightarrow> b
      | (_, NInf) \<Rightarrow> a
      | (Fin x, Fin y) \<Rightarrow> Fin (max x y))"

text \<open>A number is falsy when it is zero or \<^verbatim>\<open>NaN\<close>.\<close>

definition num_truthy :: "jsnum \<Rightarrow> bool" where
  "num_truthy a = (a \<noteq> NaN \<and> a \<noteq> Fin 0)"

text \<open>\<^verbatim>\<open>x || 0\<close> on a number.\<close>

definition or_zero :: "jsnum \<Rightarrow> jsnum" where
  "or_zero a = (if num_truthy a then a else Fin 0)"

text \<open>
  A decoded JSON value.  An object is the list of its own properties; the first binding of
  a key is the property's value.  The value \<^verbatim>\<open>undefined\<close>, which \<^verbatim>\<open>JSON.parse\<close>
  never returns but a property read does, is \<open>None\<close> of \<open>json option\<close>.
\<close>

datatype json =
    JNull
  | JBool bool
  | JNum jsnum
  | JStr string
  | JArr "json list"
  | JObj "(string \<times> json) list"

text \<open>
  What the code can throw: a \<^verbatim>\<open>TypeError\<close> raised by the language itself, or an
  \<^verbatim>\<open>Error\<close> with a message.
\<close>

datatype js_error = TypeError | Error string

definition bind :: "js_error + 'a \<Rightarrow> ('a \<Rightarrow> js_error + 'b) \<Rightarrow> js_error + 'b" where
  "bind m f = (case m of Inl e \<Rightarrow> Inl e | Inr x \<Rightarrow> f x)"

text \<open>
  The operations the code leaves to the browser and to its libraries are parameters of the
  model: string to number (\<^verbatim>\<open>Number\<close> applied to a string), number to string,
  \<^verbatim>\<open>JSON.parse\<close> (\<open>None\<close> when it throws a \<^verbatim>\<open>SyntaxError\<close>), the message the
  engine gives a \<^verbatim>\<open>TypeError\<close>, the decoding of a file's bytes as text
  (\<^verbatim>\<open>FileReader.readAsText\<close>), and the PDF library (\<^verbatim>\<open>pdfjs-dist\<close>), which turns
  the bytes of a document into the text items of each page, in page order (\<open>Inl\<close> the
  message of the error when loading the document or reading a page throws).  Bytes and
  the code units of a string are both \<open>char\<close>; nothing below depends on the size of
  the alphabet.
\<close>

record platform =
  stringToNumber :: "string \<Rightarrow> jsnum"
  numberToString :: "jsnum \<Rightarrow> string"
  jsonParse :: "string \<Rightarrow> json option"
  typeErrorMessage :: string
  decodeText :: "string \<Rightarrow> string"
  pdfPages :: "string \<Rightarrow> string + string list list"

text \<open>
  Reading a property \<^verbatim>\<open>v.k\<close>.  On \<^verbatim>\<open>null\<close> the read throws.  On an object it is the
  own property, if any.  The keys the code reads (\<^verbatim>\<open>score\<close>, \<^verbatim>\<open>breakdown\<close>,
  \<^verbatim>\<open>keywords\<close>, ...) are not properties of any prototype, so every other read is
  \<^verbatim>\<open>undefined\<close>.
\<close>

definition prop_get :: "json \<Rightarrow> string \<Rightarrow> js_error + json option" where
  "prop_get v k =
     (case v of
        JNull \<Rightarrow> Inl TypeError
      | JObj kvs \<Rightarrow> Inr (map_of kvs k)
      | _ \<Rightarrow> Inr None)"

text \<open>Optional chaining \<^verbatim>\<open>v?.k\<close>.\<close>

definition opt_get :: "json option \<Rightarrow> string \<Rightarrow> js_error + json option" where
  "opt_get v k =
     (case v of
        None \<Rightarrow> Inr None
      | Some JNull \<Rightarrow> Inr None
      | Some w \<Rightarrow> prop_get w k)"

text \<open>Truthiness of a value.\<close>

definition truthy :: "json option \<Rightarrow> bool" where
  "truthy v =
     (case v of
        None \<Rightarrow> False
      | Some JNull \<Rightarrow> False
      | Some (JBool b) \<Rightarrow> b
      | Some (JNum n) \<Rightarrow> num_truthy n
      | Some (JStr s) \<Rightarrow> s \<noteq> []
      | Some _ \<Rightarrow> True)"

text \<open>
  \<^verbatim>\<open>String(v)\<close>.  An array joins the strings of its elements with a comma, \<^verbatim>\<open>null\<close>
  elements giving the empty string.  A decoded object has no callable property of its own:
  when it has an own \<^verbatim>\<open>toString\<close> the conversion finds no method that returns a
  primitive and throws, otherwise the inherited method answers \<^verbatim>\<open>[object Object]\<close>.
\<close>

fun intersperse :: "string \<Rightarrow> string list \<Rightarrow> string" where
  "intersperse sep [] = []"
| "intersperse sep [s] = s"
| "intersperse sep (s # t # ss) = s @ sep @ intersperse sep (t # ss)"

fun to_string :: "platform \<Rightarrow> json \<Rightarrow> js_error + string"
  and elem_strings :: "platform \<Rightarrow> json list \<Rightarrow> js_error + string list" where
  "to_string P JNull = Inr ''null''"
| "to_string P (JBool b) = Inr (if b then ''true'' else ''false'')"
| "to_string P (JNum n) = Inr (numberToString P n)"
| "to_string P (JStr s) = Inr s"
| "to_string P (JArr xs) = bind (elem_strings P xs) (\<lambda>ss. Inr (intersperse '','' ss))"
| "to_string P (JObj kvs) =
     (if ''toString'' \<in> set (map fst kvs) then Inl TypeError else Inr ''[object Object]'')"
| "elem_strings P [] = Inr []"
| "elem_strings P (x # xs) =
     bind (if x = JNull then Inr [] else to_string P x)
       (\<lambda>s. bind (elem_strings P xs) (\<lambda>ss. Inr (s # ss)))"

text \<open>\<^verbatim>\<open>Number(v)\<close>.\<close>

definition to_number :: "platform \<Rightarrow> json option \<Rightarrow> js_error + jsnum" where
  "to_number P v =
     (case v of
        None \<Rightarrow> Inr NaN
      | Some JNull \<Rightarrow> Inr (Fin 0)
      | Some (JBool b) \<Rightarrow> Inr (if b then Fin 1 else Fin 0)
      | Some (JNum n) \<Rightarrow> Inr n
      | Some (JStr s) \<Rightarrow> Inr (stringToNumber P s)
      | Some w \<Rightarrow> bind (to_string P w) (\<lambda>s. Inr (stringToNumber P s)))"

text \<open>\<^verbatim>\<open>xs.filter((i) => typeof i === "string")\<close>.\<close>

fun strings_of :: "json list \<Rightarrow> string list" where
  "strings_of [] = []"
| "strings_of (JStr s # xs) = s # strings_of xs"
| "strings_of (_ # xs) = strings_of xs"

section \<open>The response normaliser\<close>

text \<open>The canonical result, \<^verbatim>\<open>interface AnalysisResult\<close>.\<close>

record Scores =
  overall :: jsnum
  atsCompatibility :: jsnum
  keywordOptimization :: jsnum
  formatting :: jsnum
  impact :: jsnum

record AnalysisResult =
  scores :: Scores
  summary :: string
  strengths :: "string list"
  improvements :: "string list"
  criticalIssues :: "string list"
  suggestions :: "string list"

text \<open>
  The mapping of the decoded payload \<^verbatim>\<open>raw\<close>, in the order of the source.
  \<^verbatim>\<open>
  const overall =
    typeof raw.score === "number" ? raw.score
    : typeof raw.score === "string" ? Number(raw.score) || 0 : 0;
  \<close>
\<close>

definition overallOf :: "platform \<Rightarrow> json option \<Rightarrow> jsnum" where
  "overallOf P score =
     (case score of
        Some (JNum n) \<Rightarrow> n
      | Some (JStr s) \<Rightarrow> or_zero (stringToNumber P s)
      | _ \<Rightarrow> Fin 0)"

text \<open>\<^verbatim>\<open>raw.breakdown || {}\<close>\<close>

definition breakdownOf :: "json option \<Rightarrow> json" where
  "breakdownOf b = (case b of Some w \<Rightarrow> (if truthy b then w else JObj []) | None \<Rightarrow> JObj [])"

text \<open>
  \<^verbatim>\<open>Number(breakdown.k1 ?? breakdown.k2 ?? 0) || 0\<close>, for the keys \<open>k1, k2, ...\<close> in turn.
\<close>

fun firstPresent :: "json \<Rightarrow> string list \<Rightarrow> js_error + json option" where
  "firstPresent b [] = Inr (Some (JNum (Fin 0)))"
| "firstPresent b (k # ks) =
     bind (prop_get b k)
       (\<lambda>v. if v = None \<or> v = Some JNull then firstPresent b ks else Inr v)"

definition breakdownNumber :: "platform \<Rightarrow> json \<Rightarrow> string list \<Rightarrow> js_error + jsnum" where
  "breakdownNumber P b ks =
     bind (firstPresent b ks) (\<lambda>v. bind (to_number P v) (\<lambda>n. Inr (or_zero n)))"

text \<open>
  \<^verbatim>\<open>Math.round((a + b) / (a || b ? 2 : 1)) || 0\<close>: the conditional binds weaker than
  \<^verbatim>\<open>||\<close>, so the divisor is \<open>2\<close> as soon as one of the two is truthy.
\<close>

definition averaged :: "jsnum \<Rightarrow> jsnum \<Rightarrow> jsnum" where
  "averaged a b =
     or_zero (js_round (js_div_pos (js_add a b) (if num_truthy a \<or> num_truthy b then 2 else 1)))"

text \<open>
  The flat list of improvements: the strings of \<^verbatim>\<open>raw.improvements\<close> when it is an
  array; when it is another object, the strings of the arrays under
  \<^verbatim>\<open>critical\<close>, \<^verbatim>\<open>important\<close>, \<^verbatim>\<open>suggested\<close>, \<^verbatim>\<open>recommended\<close>, in this order.
\<close>

definition categoryStrings :: "(string \<times> json) list \<Rightarrow> string \<Rightarrow> string list" where
  "categoryStrings kvs k = (case map_of kvs k of Some (JArr ys) \<Rightarrow> strings_of ys | _ \<Rightarrow> [])"

definition improvementsFlat :: "json option \<Rightarrow> string list" where
  "improvementsFlat imp =
     (case imp of
        Some (JArr xs) \<Rightarrow> strings_of xs
      | Some (JObj kvs) \<Rightarrow>
          concat (map (categoryStrings kvs)
            [''critical'', ''important'', ''suggested'', ''recommended''])
      | _ \<Rightarrow> [])"

text \<open>\<^verbatim>\<open>Array.isArray(v) ? v.filter((s) => typeof s === "string") : []\<close>\<close>

definition stringArray :: "json option \<Rightarrow> string list" where
  "stringArray v = (case v of Some (JArr xs) \<Rightarrow> strings_of xs | _ \<Rightarrow> [])"

text \<open>
  \<^verbatim>\<open>v && String(v)\<close>, as far as its truthiness and, when truthy, its value go: a falsy
  \<^verbatim>\<open>v\<close> is returned as the (falsy) empty string.
\<close>

definition andString :: "platform \<Rightarrow> json option \<Rightarrow> js_error + string" where
  "andString P v = (case v of Some w \<Rightarrow> (if truthy v then to_string P w else Inr []) | None \<Rightarrow> Inr [])"

text \<open>
  \<^verbatim>\<open>
  (raw.summary && String(raw.summary)) ||
  (raw.analysisSummary && String(raw.analysisSummary)) || ""
  \<close>
\<close>

definition summaryOf :: "platform \<Rightarrow> json \<Rightarrow> js_error + string" where
  "summaryOf P raw =
     bind (prop_get raw ''summary'') (\<lambda>s.
     bind (andString P s) (\<lambda>a.
     if a \<noteq> [] then Inr a
     else bind (prop_get raw ''analysisSummary'') (\<lambda>t. andString P t)))"

text \<open>
  The final pass over the scores:
  \<^verbatim>\<open>
  let v = mapped.scores[key];
  if (Number.isNaN(v) || v === Infinity || v === -Infinity) v = 0;
  mapped.scores[key] = Math.max(0, Math.min(100, Math.round(v)));
  \<close>
\<close>

definition clampScore :: "jsnum \<Rightarrow> jsnum" where
  "clampScore v =
     (let w = (if v = NaN \<or> v = PInf \<or> v = NInf then Fin 0 else v)
      in js_max (Fin 0) (js_min (Fin 100) (js_round w)))"

definition clampScores :: "Scores \<Rightarrow> Scores" where
  "clampScores s =
     \<lparr> overall = clampScore (overall s),
       atsCompatibility = clampScore (atsCompatibility s),
       keywordOptimization = clampScore (keywordOptimization s),
       formatting = clampScore (formatting s),
       impact = clampScore (impact s) \<rparr>"

text \<open>
  The scores before the final pass, from the overall score and the five numbers of the
  breakdown.
\<close>

definition mappedScores :: "jsnum \<Rightarrow> jsnum \<Rightarrow> jsnum \<Rightarrow> jsnum \<Rightarrow> jsnum \<Rightarrow> jsnum \<Rightarrow> Scores" where
  "mappedScores ov keywords fmt experience skills education =
     \<lparr> overall = js_round ov,
       atsCompatibility = averaged experience education,
       keywordOptimization = or_zero (js_round keywords),
       formatting = or_zero (js_round fmt),
       impact = averaged skills experience \<rparr>"

text \<open>
  Steps 3 and 4 of the normaliser: everything \<^verbatim>\<open>analyzeResumeWithGemini\<close> does between
  \<^verbatim>\<open>JSON.parse\<close> and \<^verbatim>\<open>return mapped\<close>.
\<close>

definition mapResult :: "platform \<Rightarrow> json \<Rightarrow> js_error + AnalysisResult" where
  "mapResult P raw =
     bind (prop_get raw ''score'') (\<lambda>score.
     bind (prop_get raw ''breakdown'') (\<lambda>b.
     bind (breakdownNumber P (breakdownOf b) [''keywords'', ''keywordsScore'']) (\<lambda>keywords.
     bind (breakdownNumber P (breakdownOf b) [''formatting'']) (\<lambda>fmt.
     bind (breakdownNumber P (breakdownOf b) [''experience'']) (\<lambda>experience.
     bind (breakdownNumber P (breakdownOf b) [''skills'']) (\<lambda>skills.
     bind (breakdownNumber P (breakdownOf b) [''education'']) (\<lambda>education.
     bind (prop_get raw ''improvements'') (\<lambda>imp.
     bind (prop_get raw ''strengths'') (\<lambda>str.
     bind (summaryOf P raw) (\<lambda>summ.
     bind (opt_get imp ''critical'') (\<lambda>crit.
     bind (opt_get imp ''suggested'') (\<lambda>sugg.
       Inr \<lparr> scores =
               clampScores
                 (mappedScores (overallOf P score) keywords fmt experience skills education),
             summary = summ,
             strengths = stringArray str,
             improvements = improvementsFlat imp,
             criticalIssues = stringArray crit,
             suggestions = stringArray sugg \<rparr>))))))))))))"

section \<open>Locating the payload in the reply\<close>

text \<open>
  The class \<^verbatim>\<open>\s\<close> of a regular expression, which is also what \<^verbatim>\<open>trim\<close> removes:
  tab, line feed, vertical tab, form feed, carriage return, space and no-break space (the
  members of the class among the code units below 256).
\<close>

definition js_space :: "char \<Rightarrow> bool" where
  "js_space c = (of_char c \<in> {9, 10, 11, 12, 13, 32, 160 :: nat})"

definition trim :: "string \<Rightarrow> string" where
  "trim s = rev (dropWhile js_space (rev (dropWhile js_space s)))"

definition trimEnd :: "string \<Rightarrow> string" where
  "trimEnd s = rev (dropWhile js_space (rev s))"

definition lower_ascii :: "char \<Rightarrow> char" where
  "lower_ascii c =
     (let n = of_char c :: nat in if 65 \<le> n \<and> n \<le> 90 then char_of (n + 32) else c)"

definition starts_with :: "string \<Rightarrow> string \<Rightarrow> bool" where
  "starts_with s p = (take (length p) s = p)"

text \<open>\<^verbatim>\<open>s.includes(p)\<close>\<close>

fun str_includes :: "string \<Rightarrow> string \<Rightarrow> bool" where
  "str_includes [] p = (p = [])"
| "str_includes (c # cs) p = (starts_with (c # cs) p \<or> str_includes cs p)"

text \<open>
  The result of \<^verbatim>\<open>text.match(re)\<close>: the matched substring \<^verbatim>\<open>m[0]\<close> and the first
  group \<^verbatim>\<open>m[1]\<close>, \<open>None\<close> when the expression has no group.
\<close>

type_synonym regex_match = "string \<times> string option"

text \<open>
  \<^verbatim>\<open>/```json\s*([\s\S]*?)\s*```/i\<close>.
  A match that starts at the head of \<open>s\<close>: the seven characters of the label, compared
  without case; all the white space that follows (the first \<^verbatim>\<open>\s*\<close> is greedy, and
  giving characters back cannot help, since a fence does not start with white space);
  then the shortest group after which white space and a closing fence follow, that is the
  text up to the first closing fence, without the white space at its end.
  \<open>until_fence\<close> is the text before the first closing fence.
\<close>

fun until_fence :: "string \<Rightarrow> string option" where
  "until_fence [] = None"
| "until_fence (c # cs) =
     (if starts_with (c # cs) ''```'' then Some []
      else map_option ((#) c) (until_fence cs))"

definition fence_at :: "string \<Rightarrow> regex_match option" where
  "fence_at s =
     (if map lower_ascii (take 7 s) = ''```json'' then
        (let body = dropWhile js_space (drop 7 s)
         in case until_fence body of
              None \<Rightarrow> None
            | Some inner \<Rightarrow>
                Some (take (length s - length body + length inner + 3) s, Some (trimEnd inner)))
      else None)"

text \<open>The expression is tried at each position of the text, from the left.\<close>

fun fence_match :: "string \<Rightarrow> regex_match option" where
  "fence_match [] = None"
| "fence_match (c # cs) =
     (case fence_at (c # cs) of Some m \<Rightarrow> Some m | None \<Rightarrow> fence_match cs)"

text \<open>
  \<^verbatim>\<open>/\{[\s\S]*\}/\<close>: from the leftmost opening brace that has a closing brace after it,
  greedily to the last closing brace.
\<close>

definition upto_last_brace :: "string \<Rightarrow> string" where
  "upto_last_brace cs = rev (dropWhile (\<lambda>d. d \<noteq> CHR ''}'') (rev cs))"

fun brace_match :: "string \<Rightarrow> regex_match option" where
  "brace_match [] = None"
| "brace_match (c # cs) =
     (if c = CHR ''{'' \<and> CHR ''}'' \<in> set cs then Some (c # upto_last_brace cs, None)
      else brace_match cs)"

text \<open>
  \<^verbatim>\<open>
  let jsonMatch = text.match(/```json\s*([\s\S]*?)\s*```/i);
  if (!jsonMatch) { jsonMatch = text.match(/\{[\s\S]*\}/); }
  \<close>
\<close>

definition locatePayload :: "string \<Rightarrow> regex_match option" where
  "locatePayload text = (case fence_match text of Some m \<Rightarrow> Some m | None \<Rightarrow> brace_match text)"

text \<open>\<^verbatim>\<open>jsonMatch[1] || jsonMatch[0]\<close>\<close>

definition jsonTextOf :: "regex_match \<Rightarrow> string" where
  "jsonTextOf m = (case snd m of Some g \<Rightarrow> (if g \<noteq> [] then g else fst m) | None \<Rightarrow> fst m)"

section \<open>The analysis call\<close>

text \<open>
  What the code writes to the console: the label and the value logged with it (for an
  error object, its message).
\<close>

type_synonym console = "(string \<times> string) list"

text \<open>
  The services behind the application: the generative model (\<open>Inl\<close> the message of the
  error it throws) with the instruction template \<^verbatim>\<open>ATS_ANALYSIS_PROMPT\<close> sent to it (a
  string constant of the source, on whose text nothing here depends), and the storage
  backend: the upload of an object (\<open>Inl\<close> the error, \<open>Inr\<close> the path), the public URL of
  a path, and the insertion of an analysis record (\<open>Inl\<close> the error, \<open>Inr\<close> the id).
\<close>

record File =
  name :: string
  type :: string
  content :: "string option"

record services =
  ATS_ANALYSIS_PROMPT :: string
  generateContent :: "string \<Rightarrow> string + string"
  uploadObject :: "string \<Rightarrow> File \<Rightarrow> string + string"
  getPublicUrl :: "string \<Rightarrow> string"
  insertAnalysis :: "string \<Rightarrow> string \<Rightarrow> string \<Rightarrow> AnalysisResult \<Rightarrow> string + string"

definition message :: "platform \<Rightarrow> js_error \<Rightarrow> string" where
  "message P e = (case e of TypeError \<Rightarrow> typeErrorMessage P | Error m \<Rightarrow> m)"

text \<open>
  The body of the \<^verbatim>\<open>try\<close> block, with what it logs; \<open>parseAndMap\<close> is its part
  after the text of the payload has been located.
\<close>

definition parseAndMap :: "platform \<Rightarrow> string \<Rightarrow> (js_error + AnalysisResult) \<times> console" where
  "parseAndMap P jsonText =
     (case jsonParse P jsonText of
        None \<Rightarrow>
          (Inl (Error ''Failed to parse JSON from Gemini response''),
           [(''Failed to JSON.parse extracted text. Extracted text:'', jsonText)])
      | Some raw \<Rightarrow> (mapResult P raw, []))"

definition analyzeBody :: "platform \<Rightarrow> services \<Rightarrow> string \<Rightarrow> (js_error + AnalysisResult) \<times> console" where
  "analyzeBody P S resumeText =
     (case generateContent S (ATS_ANALYSIS_PROMPT S @ resumeText) of
        Inl m \<Rightarrow> (Inl (Error m), [])
      | Inr text \<Rightarrow>
          (case locatePayload text of
             None \<Rightarrow>
               (Inl (Error ''No valid JSON found in response from Gemini. Try again.''),
                [(''Gemini response did not contain JSON. Full response:'', text)])
           | Some jsonMatch \<Rightarrow> parseAndMap P (jsonTextOf jsonMatch)))"

text \<open>
  The \<^verbatim>\<open>catch\<close> block logs the error caught and throws one whose message depends on
  the message of the error caught.
\<close>

definition classify :: "string \<Rightarrow> string" where
  "classify m =
     (if str_includes m ''Unavailable'' \<or> str_includes m ''503'' then
        ''Gemini API is temporarily unavailable. Please try again later.''
      else if str_includes m ''JSON'' \<or> str_includes m ''parse'' then
        ''Failed to parse analysis results from Gemini. Try again.''
      else if str_includes m ''API key'' then
        ''Invalid Gemini API key. Check configuration.''
      else ''Failed to analyze resume. Please try again.'')"

definition rethrow ::
    "platform \<Rightarrow> (js_error + AnalysisResult) \<times> console \<Rightarrow> (string + AnalysisResult) \<times> console" where
  "rethrow P outcome =
     (case outcome of
        (Inr mapped, logged) \<Rightarrow> (Inr mapped, logged)
      | (Inl e, logged) \<Rightarrow>
          (Inl (classify (message P e)),
           logged @ [(''Error analyzing resume with Gemini:'', message P e)]))"

definition analyzeResumeWithGemini ::
    "platform \<Rightarrow> services \<Rightarrow> string \<Rightarrow> (string + AnalysisResult) \<times> console" where
  "analyzeResumeWithGemini P S resumeText = rethrow P (analyzeBody P S resumeText)"

section \<open>Text extraction\<close>

text \<open>
  A \<^verbatim>\<open>File\<close>: its name, its declared MIME type and its bytes, \<open>None\<close> when the
  \<^verbatim>\<open>FileReader\<close> fails to read them (\<^verbatim>\<open>onerror\<close>).

  The text of a document:
  \<^verbatim>\<open>text += content.items.map((item) => item.str).join(" ") + "\n"\<close>, page after page.
\<close>

definition documentText :: "string list list \<Rightarrow> string" where
  "documentText pages = concat (map (\<lambda>items. intersperse '' '' items @ [CHR 0x0A]) pages)"

definition extractTextFromFile :: "platform \<Rightarrow> File \<Rightarrow> (string + string) \<times> console" where
  "extractTextFromFile P f =
     (if type f = ''text/plain'' then
        (case content f of
           None \<Rightarrow> (Inl ''Failed to read text file'', [])
         | Some bytes \<Rightarrow> (Inr (decodeText P bytes), []))
      else if type f = ''application/pdf'' then
        (case content f of
           None \<Rightarrow> (Inl ''Failed to read PDF file'', [])
         | Some bytes \<Rightarrow>
             (case pdfPages P bytes of
                Inl err \<Rightarrow>
                  (Inl ''Failed to parse PDF. Try a different PDF or convert to text.'',
                   [(''PDF parsing error:'', err)])
              | Inr pages \<Rightarrow>
                  (if length (trim (documentText pages)) > 50
                   then (Inr (trim (documentText pages)), [])
                   else
                     (Inl (''Could not extract readable text from PDF. Please try converting '' @
                           ''your PDF to a text file or copy-paste the content.''), []))))
      else if type f = ''application/msword'' \<or>
              type f = ''application/vnd.openxmlformats-officedocument.wordprocessingml.document''
      then
        (Inl ''Word documents are not supported yet. Please convert your resume to PDF or text format.'',
         [])
      else
        (case content f of
           None \<Rightarrow> (Inl ''Failed to read file'', [])
         | Some bytes \<Rightarrow>
             (case pdfPages P bytes of
                Inl err \<Rightarrow> (Inl ''Unsupported file type. Please use PDF or text files.'', [])
              | Inr pages \<Rightarrow>
                  (if length (trim (documentText pages)) > 50
                   then (Inr (trim (documentText pages)), [])
                   else
                     (Inl ''Could not extract readable text from file. Please provide a PDF or text file.'',
                      [])))))"

section \<open>Storage and the analysis flow\<close>

text \<open>
  \<^verbatim>\<open>uploadResume\<close> and \<^verbatim>\<open>saveAnalysisResults\<close> return a pair of a value and an
  error, one of them \<^verbatim>\<open>null\<close>; an error of the backend, reported or thrown, is logged
  and returned.
\<close>

definition uploadResume ::
    "services \<Rightarrow> string \<Rightarrow> File \<Rightarrow> (string option \<times> string option) \<times> console" where
  "uploadResume S userId f =
     (case uploadObject S userId f of
        Inl err \<Rightarrow> ((None, Some err), [(''Error uploading resume:'', err)])
      | Inr path \<Rightarrow> ((Some (getPublicUrl S path), None), []))"

definition saveAnalysisResults ::
    "services \<Rightarrow> string \<Rightarrow> string \<Rightarrow> string \<Rightarrow> AnalysisResult \<Rightarrow> (string option \<times> string option) \<times> console" where
  "saveAnalysisResults S userId fileName fileUrl analysisResults =
     (case insertAnalysis S userId fileName fileUrl analysisResults of
        Inl err \<Rightarrow> ((None, Some err), [(''Error saving analysis results:'', err)])
      | Inr ident \<Rightarrow> ((Some ident, None), []))"

text \<open>
  The state of the component \<^verbatim>\<open>App\<close> that \<^verbatim>\<open>analyzeResume\<close> writes.
\<close>

record AppState =
  results :: "AnalysisResult option"
  error :: "string option"
  analyzing :: bool
  uploadingToStorage :: bool

text \<open>
  The \<^verbatim>\<open>try\<close> block of \<^verbatim>\<open>analyzeResume\<close>: \<open>Inl\<close> the message of the error it
  throws, \<open>Inr\<close> the result it passes to \<^verbatim>\<open>setResults\<close>.
\<close>

definition analyzeAttempt ::
    "platform \<Rightarrow> services \<Rightarrow> string \<Rightarrow> File \<Rightarrow> (string + AnalysisResult) \<times> console" where
  "analyzeAttempt P S userId uploadedFile =
     (case uploadResume S userId uploadedFile of
        ((Some fileUrl, None), out1) \<Rightarrow>
          (if fileUrl = [] then (Inl ''Failed to upload resume to storage'', out1)
           else
             (case extractTextFromFile P uploadedFile of
                (Inl m, out2) \<Rightarrow> (Inl m, out1 @ out2)
              | (Inr resumeText, out2) \<Rightarrow>
                  (case analyzeResumeWithGemini P S resumeText of
                     (Inl m, out3) \<Rightarrow>
                       (Inl m, out1 @ out2 @ [(''Extracted resume text:'', resumeText)] @ out3)
                   | (Inr analysisResult, out3) \<Rightarrow>
                       (case saveAnalysisResults S userId (name uploadedFile) fileUrl analysisResult of
                          ((saved, saveError), out4) \<Rightarrow>
                            (Inr analysisResult,
                             out1 @ out2 @ [(''Extracted resume text:'', resumeText)] @ out3 @ out4 @
                             (case saveError of
                                Some err \<Rightarrow> [(''Failed to save analysis results:'', err)]
                              | None \<Rightarrow> []))))))
      | (other, out1) \<Rightarrow> (Inl ''Failed to upload resume to storage'', out1))"

definition analyzeResume ::
    "platform \<Rightarrow> services \<Rightarrow> string option \<Rightarrow> File \<Rightarrow> AppState \<Rightarrow> AppState \<times> console" where
  "analyzeResume P S user uploadedFile st =
     (case user of
        None \<Rightarrow> (st\<lparr>error := Some ''Please sign in to analyze your resume''\<rparr>, [])
      | Some userId \<Rightarrow>
          (case analyzeAttempt P S userId uploadedFile of
             (Inr analysisResult, out) \<Rightarrow>
               (st\<lparr>results := Some analysisResult, error := None,
                   analyzing := False, uploadingToStorage := False\<rparr>, out)
           | (Inl m, out) \<Rightarrow>
               (st\<lparr>error := Some m, analyzing := False, uploadingToStorage := False\<rparr>, out)))"

section \<open>The history view\<close>

text \<open>
  \<^verbatim>\<open>ResumeHistory\<close> reads stored results of either shape.  For \<^verbatim>\<open>ar\<close> the stored value
  (\<^verbatim>\<open>analysis.analysis_results ?? {}\<close>):
  \<^verbatim>\<open>
  const overallRaw = ar?.scores?.overall ??
    (typeof ar.score === "number" ? ar.score : Number(ar.score) || null);
  const atsRaw = ar?.scores?.atsCompatibility ??
    (ar?.breakdown
      ? (() => {
          const exp = Number(ar.breakdown.experience ?? 0) || 0;
          const edu = Number(ar.breakdown.education ?? 0) || 0;
          if (exp || edu) { return Math.round((exp + edu) / (exp && edu ? 2 : 1)); }
          return null;
        })()
      : null);
  \<close>
\<close>

definition numberOrNull :: "jsnum \<Rightarrow> json" where
  "numberOrNull n = (if num_truthy n then JNum n else JNull)"

definition overallRaw :: "platform \<Rightarrow> json \<Rightarrow> js_error + json option" where
  "overallRaw P ar =
     bind (prop_get ar ''scores'') (\<lambda>sc.
     bind (opt_get sc ''overall'') (\<lambda>nested.
     if nested \<noteq> None \<and> nested \<noteq> Some JNull then Inr nested
     else
       bind (prop_get ar ''score'') (\<lambda>score.
         case score of
           Some (JNum n) \<Rightarrow> Inr (Some (JNum n))
         | _ \<Rightarrow> bind (to_number P score) (\<lambda>n. Inr (Some (numberOrNull n))))))"

definition historyAverage :: "jsnum \<Rightarrow> jsnum \<Rightarrow> json" where
  "historyAverage expr edu =
     (if num_truthy expr \<or> num_truthy edu
      then JNum (js_round (js_div_pos (js_add expr edu)
                   (if num_truthy expr \<and> num_truthy edu then 2 else 1)))
      else JNull)"

definition atsRaw :: "platform \<Rightarrow> json \<Rightarrow> js_error + json option" where
  "atsRaw P ar =
     bind (prop_get ar ''scores'') (\<lambda>sc.
     bind (opt_get sc ''atsCompatibility'') (\<lambda>nested.
     if nested \<noteq> None \<and> nested \<noteq> Some JNull then Inr nested
     else
       bind (prop_get ar ''breakdown'') (\<lambda>b.
         case b of
           None \<Rightarrow> Inr (Some JNull)
         | Some bd \<Rightarrow>
             (if truthy b then
                bind (breakdownNumber P bd [''experience'']) (\<lambda>expr.
                bind (breakdownNumber P bd [''education'']) (\<lambda>edu.
                  Inr (Some (historyAverage expr edu))))
              else Inr (Some JNull)))))"

section \<open>The earlier version of the service\<close>

text \<open>
  The earlier \<^verbatim>\<open>analyzeResumeWithGemini\<close> returns the decoded payload as it is, after
  a check of its structure:
  \<^verbatim>\<open>
  if (!analysisResult.score || !analysisResult.breakdown ||
      !analysisResult.improvements || !analysisResult.strengths) {
    throw new Error('Invalid response structure from Gemini API');
  }
  \<close>
\<close>

definition validate_legacy :: "json \<Rightarrow> js_error + json" where
  "validate_legacy analysisResult =
     bind (prop_get analysisResult ''score'') (\<lambda>a.
     bind (prop_get analysisResult ''breakdown'') (\<lambda>b.
     bind (prop_get analysisResult ''improvements'') (\<lambda>c.
     bind (prop_get analysisResult ''strengths'') (\<lambda>d.
       if truthy a \<and> truthy b \<and> truthy c \<and> truthy d then Inr analysisResult
       else Inl (Error ''Invalid response structure from Gemini API'')))))"

text \<open>
  The earlier \<^verbatim>\<open>extractTextFromFile\<close> has the same first three branches, with another
  wording of one message, and rejects every other type at once.
\<close>

definition extractTextFromFile_legacy :: "platform \<Rightarrow> File \<Rightarrow> (string + string) \<times> console" where
  "extractTextFromFile_legacy P f =
     (if type f = ''text/plain'' then
        (case content f of
           None \<Rightarrow> (Inl ''Failed to read text file'', [])
         | Some bytes \<Rightarrow> (Inr (decodeText P bytes), []))
      else if type f = ''application/pdf'' then
        (case content f of
           None \<Rightarrow> (Inl ''Failed to read PDF file'', [])
         | Some bytes \<Rightarrow>
             (case pdfPages P bytes of
                Inl err \<Rightarrow>
                  (Inl ''Failed to parse PDF. Please try a different PDF or convert to text format.'',
                   [(''PDF parsing error:'', err)])
              | Inr pages \<Rightarrow>
                  (if length (trim (documentText pages)) > 50
                   then (Inr (trim (documentText pages)), [])
                   else
                     (Inl (''Could not extract readable text from PDF. Please try converting '' @
                           ''your PDF to a text file or copy-paste the content.''), []))))
      else if type f = ''application/msword'' \<or>
              type f = ''application/vnd.openxmlformats-officedocument.wordprocessingml.document''
      then
        (Inl ''Word documents are not supported yet. Please convert your resume to PDF or text format.'',
         [])
      else (Inl ''Unsupported file type. Please use PDF or text files.'', []))"

section \<open>The properties, in the words of the specification\<close>

text \<open>
  A score as the data model wants it: an integer from 0 to 100.
\<close>

definition valid_score :: "jsnum \<Rightarrow> bool" where
  "valid_score v = (case v of Fin x \<Rightarrow> of_int \<lfloor>x\<rfloor> = x \<and> 0 \<le> x \<and> x \<le> 100 | _ \<Rightarrow> False)"

text \<open>
  The final pass as the specification words it: not a number or infinite gives 0;
  otherwise round to the nearest integer and clamp into the range.
\<close>

definition normalizedScore :: "jsnum \<Rightarrow> jsnum" where
  "normalizedScore v =
     (case v of
        Fin x \<Rightarrow> Fin (of_int (if round x < 0 then 0 else if 100 < round x then 100 else round x))
      | _ \<Rightarrow> Fin 0)"

text \<open>The own property \<open>k\<close> of a decoded value, if it is an object that has one.\<close>

definition own :: "json \<Rightarrow> string \<Rightarrow> json option" where
  "own v k = (case v of JObj kvs \<Rightarrow> map_of kvs k | _ \<Rightarrow> None)"

text \<open>
  The number a field of the payload holds: the number itself, the number a string reads
  as, and not a number when the field is missing or holds anything else.
\<close>

definition numericReading :: "platform \<Rightarrow> json option \<Rightarrow> jsnum" where
  "numericReading P v =
     (case v of
        Some (JNum n) \<Rightarrow> n
      | Some (JStr s) \<Rightarrow> stringToNumber P s
      | _ \<Rightarrow> NaN)"

text \<open>
  The values that an object holds under a list of keys, in the order of the keys, without
  those that are missing or \<^verbatim>\<open>null\<close>.
\<close>

definition presentValues :: "json \<Rightarrow> string list \<Rightarrow> json list" where
  "presentValues b ks = filter (\<lambda>v. v \<noteq> JNull) (List.map_filter (own b) ks)"

text \<open>
  The number read in the breakdown of a payload under the first of the keys \<open>ks\<close> that
  holds a value other than \<^verbatim>\<open>null\<close>: what \<^verbatim>\<open>Number\<close> makes of that value, and 0 when
  the payload has no breakdown, the breakdown no such key, or the value no number to read.
\<close>

definition breakdownReading :: "platform \<Rightarrow> json \<Rightarrow> string list \<Rightarrow> jsnum" where
  "breakdownReading P raw ks =
     (case own raw ''breakdown'' of
        None \<Rightarrow> Fin 0
      | Some b \<Rightarrow>
          (if \<not> truthy (Some b) then Fin 0
           else
             (case presentValues b ks of
                [] \<Rightarrow> Fin 0
              | v # _ \<Rightarrow>
                  (case to_number P (Some v) of
                     Inr n \<Rightarrow> (if n = NaN then Fin 0 else n)
                   | Inl _ \<Rightarrow> Fin 0))))"

text \<open>
  The fenced block of a reply.  \<open>tails\<close> are the suffixes of a text, the longest first.  A
  block starts at the head of \<open>s\<close> when \<open>s\<close> begins with the label, in any case, and a
  closing fence follows somewhere.  \<open>beforeFence\<close> is the text before the first fence (the
  whole text when it has none).  The fenced block of a text is the first that starts in
  it: the block, from its label to its closing fence, and its content, trimmed.
\<close>

fun tails :: "string \<Rightarrow> string list" where
  "tails [] = [[]]"
| "tails (c # cs) = (c # cs) # tails cs"

definition labelled :: "string \<Rightarrow> bool" where
  "labelled s = (map lower_ascii (take 7 s) = ''```json'' \<and> str_includes (drop 7 s) ''```'')"

definition beforeFence :: "string \<Rightarrow> string" where
  "beforeFence b = take (length (takeWhile (\<lambda>s. \<not> starts_with s ''```'') (tails b))) b"

definition fencedBlock :: "string \<Rightarrow> (string \<times> string) option" where
  "fencedBlock t =
     (case List.find labelled (tails t) of
        None \<Rightarrow> None
      | Some s \<Rightarrow>
          Some (take (7 + length (beforeFence (drop 7 s)) + 3) s, trim (beforeFence (drop 7 s))))"

text \<open>
  The substring from the first opening brace to the last closing brace, when the text has
  an opening brace and a closing brace after the first of them.
\<close>

definition firstToLastBrace :: "string \<Rightarrow> string option" where
  "firstToLastBrace t =
     (let from_first = dropWhile (\<lambda>c. c \<noteq> CHR ''{'') t;
          to_last = rev (dropWhile (\<lambda>c. c \<noteq> CHR ''}'') (rev from_first))
      in if CHR ''}'' \<in> set from_first then Some to_last else None)"

text \<open>
  The rule of the specification for a derived score: the rounded average of the two
  contributions when both are present and not zero, the one that is when only one is, and
  0 when neither is.
\<close>

definition singleNonzeroAverage :: "rat \<Rightarrow> rat \<Rightarrow> rat" where
  "singleNonzeroAverage a b =
     (if a \<noteq> 0 \<and> b \<noteq> 0 then of_int (round ((a + b) / 2))
      else if a \<noteq> 0 then a
      else if b \<noteq> 0 then b
      else 0)"

text \<open>
  A decoded value that the conversions to string and to number accept at every depth: no
  object in it has an own property named \<^verbatim>\<open>toString\<close>.
\<close>

fun tame :: "json \<Rightarrow> bool"
  and tame_list :: "json list \<Rightarrow> bool"
  and tame_fields :: "(string \<times> json) list \<Rightarrow> bool" where
  "tame (JArr xs) = tame_list xs"
| "tame (JObj kvs) = tame_fields kvs"
| "tame v = True"
| "tame_list [] = True"
| "tame_list (x # xs) = (tame x \<and> tame_list xs)"
| "tame_fields [] = True"
| "tame_fields ((k, v) # kvs) = (k \<noteq> ''toString'' \<and> tame v \<and> tame_fields kvs)"

section \<open>A platform to run the examples on\<close>

text \<open>
  The examples need concrete platform operations.  The ones below agree with the browser
  on the inputs the examples use: \<^verbatim>\<open>Number\<close> on the empty string and on strings of
  decimal digits (every other string is taken for \<^verbatim>\<open>NaN\<close>), the string of a special
  value and of a natural number, \<^verbatim>\<open>JSON.parse\<close> on the three texts \<^verbatim>\<open>{}\<close>,
  \<^verbatim>\<open>null\<close> and \<^verbatim>\<open>5\<close>, a text decoder for ASCII, and a PDF library that finds one page with one
  text item holding the bytes of the file when these start with \<^verbatim>\<open>%PDF\<close>.
\<close>

definition digit_char :: "nat \<Rightarrow> char" where
  "digit_char d = char_of (48 + d)"

function decimal :: "nat \<Rightarrow> string" where
  "decimal n = (if n < 10 then [digit_char n] else decimal (n div 10) @ [digit_char (n mod 10)])"
  by pat_completeness auto
termination
  by (relation "measure id") auto

definition is_digit :: "char \<Rightarrow> bool" where
  "is_digit c = (48 \<le> (of_char c :: nat) \<and> (of_char c :: nat) \<le> 57)"

definition sampleStringToNumber :: "string \<Rightarrow> jsnum" where
  "sampleStringToNumber s =
     (if list_all is_digit s
      then Fin (of_nat (foldl (\<lambda>a c. 10 * a + (of_char c - 48)) 0 s))
      else NaN)"

definition sampleNumberToString :: "jsnum \<Rightarrow> string" where
  "sampleNumberToString n =
     (case n of
        NaN \<Rightarrow> ''NaN''
      | PInf \<Rightarrow> ''Infinity''
      | NInf \<Rightarrow> ''-Infinity''
      | Fin x \<Rightarrow> decimal (nat \<lfloor>x\<rfloor>))"

definition sample_platform :: platform where
  "sample_platform =
     \<lparr> stringToNumber = sampleStringToNumber,
       numberToString = sampleNumberToString,
       jsonParse = map_of [(''{}'', JObj []), (''null'', JNull), (''5'', JNum (Fin 5))],
       typeErrorMessage = ''Cannot read properties of null'',
       decodeText = (\<lambda>bytes. bytes),
       pdfPages = (\<lambda>bytes. if starts_with bytes ''%PDF'' then Inr [[bytes]]
                             else Inl ''Invalid PDF structure.'') \<rparr>"

text \<open>
  Services for the examples: the model answers with the text it is constructed with, the
  upload succeeds, and the insertion of the record fails.
\<close>

definition sample_services :: "string \<Rightarrow> services" where
  "sample_services reply =
     \<lparr> ATS_ANALYSIS_PROMPT = ''Resume text to analyze:'',
       generateContent = (\<lambda>prompt. Inr reply),
       uploadObject = (\<lambda>userId f. Inr (userId @ ''/'' @ name f)),
       getPublicUrl = (\<lambda>path. ''https://storage.example/resumes/'' @ path),
       insertAnalysis = (\<lambda>userId fileName fileUrl r. Inl ''permission denied'') \<rparr>"

text \<open>The files, the reply and the states of the examples.\<close>

definition scanned_pdf :: File where
  "scanned_pdf =
     \<lparr> name = ''scan.pdf'', type = ''application/pdf'',
       content = Some ''%PDF-1.4 scanned resume, pictures and no text, end'' \<rparr>"

definition resume_pdf :: File where
  "resume_pdf =
     \<lparr> name = ''resume.pdf'', type = ''application/pdf'',
       content = Some ''%PDF-1.4 Jane Doe, software engineer, ten years of experience in Go'' \<rparr>"

definition resume_doc :: File where
  "resume_doc =
     \<lparr> name = ''resume.doc'', type = ''application/msword'', content = Some ''Jane Doe'' \<rparr>"

definition resume_txt :: File where
  "resume_txt =
     \<lparr> name = ''resume.txt'', type = ''text/plain'',
       content = Some ''Jane Doe, software engineer'' \<rparr>"

definition resume_bin :: File where
  "resume_bin =
     \<lparr> name = ''resume.bin'', type = ''application/octet-stream'',
       content = Some ''%PDF-1.4 Jane Doe, software engineer, ten years of experience in Go'' \<rparr>"

definition fenced_reply :: string where
  "fenced_reply = ''Here you go: ```json'' @ [CHR 0x0A] @ ''{}'' @ [CHR 0x0A] @ ''```''"

definition categorized_payload :: json where
  "categorized_payload =
     JObj [(''score'', JNum (Fin 85)),
           (''improvements'',
            JObj [(''critical'', JArr [JStr ''Add metrics'', JNum (Fin 3)]),
                  (''important'', JArr [JStr ''Add a summary'']),
                  (''suggested'', JArr [JStr ''List certifications''])]),
           (''strengths'', JArr [JStr ''Clear history''])]"

definition fenced_null_reply :: string where
  "fenced_null_reply = ''```json'' @ [CHR 0x0A] @ ''null'' @ [CHR 0x0A] @ ''```''"

definition fenced_number_reply :: string where
  "fenced_number_reply = ''```json'' @ [CHR 0x0A] @ ''5'' @ [CHR 0x0A] @ ''```''"

definition prose_fenced_reply :: string where
  "prose_fenced_reply =
     ''Fill in {name}: ```JSON'' @ [CHR 0x0A] @ ''{}'' @ [CHR 0x0A] @ ''``` and {that} is all''"

definition scenario_payload :: json where
  "scenario_payload =
     JObj [(''score'', JNum (Fin 85)),
           (''breakdown'',
            JObj [(''keywords'', JNum (Fin 80)), (''formatting'', JNum (Fin 90)),
                  (''experience'', JNum (Fin 85)), (''skills'', JNum (Fin 75)),
                  (''education'', JNum (Fin 95))]),
           (''improvements'',
            JObj [(''critical'', JArr [JStr ''Add metrics'']), (''important'', JArr []),
                  (''suggested'', JArr [])]),
           (''strengths'', JArr [JStr ''Clear history''])]"

definition initial_state :: AppState where
  "initial_state = \<lparr> results = None, error = None, analyzing = False, uploadingToStorage = False \<rparr>"

definition empty_result :: AnalysisResult where
  "empty_result =
     \<lparr> scores = \<lparr> overall = Fin 0, atsCompatibility = Fin 0, keywordOptimization = Fin 0,
                    formatting = Fin 0, impact = Fin 0 \<rparr>,
       summary = [], strengths = [], improvements = [], criticalIssues = [], suggestions = [] \<rparr>"

section \<open>Rules for evaluating the model\<close>

declare ulp_exp.simps [simp del]

lemma round_half_even_of_int [simp]: "round_half_even (of_int i) = i"
  by (simp add: round_half_even_def)

lemma ulp_exp_unique:
  "k0 \<le> k \<Longrightarrow> k \<le> 2045 \<Longrightarrow> \<bar>s\<bar> < 2 ^ (k + 53) \<Longrightarrow> (k0 < k \<longrightarrow> 2 ^ (k + 52) \<le> \<bar>s\<bar>)
     \<Longrightarrow> ulp_exp s k0 = k"
proof (induction "k - k0" arbitrary: k0)
  case 0
  then have "k0 = k" by simp
  with 0 show ?case by (subst ulp_exp.simps) simp
next
  case (Suc n)
  then have lt: "k0 < k" by simp
  with Suc.prems have low: "(2::rat) ^ (k + 52) \<le> \<bar>s\<bar>" by simp
  have "(2::rat) ^ (k0 + 53) \<le> 2 ^ (k + 52)"
    using lt by (intro power_increasing) auto
  with low have c: "2 ^ (k0 + 53) \<le> \<bar>s\<bar>" by linarith
  have "ulp_exp s (Suc k0) = k"
    using Suc.hyps(2) Suc.prems lt by (intro Suc.hyps(1)) auto
  with c lt Suc.prems(2) show ?case by (subst ulp_exp.simps) simp
qed

lemma ulp_exp_le:
  "k0 \<le> j \<Longrightarrow> j \<le> 2045 \<Longrightarrow> \<bar>s\<bar> < 2 ^ (j + 53) \<Longrightarrow> ulp_exp s k0 \<le> j"
proof (induction "j - k0" arbitrary: k0)
  case 0
  then have "k0 = j" by simp
  with 0 show ?case by (subst ulp_exp.simps) simp
next
  case (Suc n)
  then have lt: "k0 < j" by simp
  have "ulp_exp s (Suc k0) \<le> j"
    using Suc.hyps(2) Suc.prems lt by (intro Suc.hyps(1)) auto
  with lt show ?case by (subst ulp_exp.simps) simp
qed

lemma to_double_exact:
  assumes m: "\<bar>m\<bar> < 2 ^ 53" and j: "j \<le> 2045"
  shows "to_double (of_int m * 2 ^ j / 2 ^ 1074) = Fin (of_int m * 2 ^ j / 2 ^ 1074)"
proof -
  define s :: rat where "s = of_int m * 2 ^ j"
  define k where "k = ulp_exp s 0"
  have x: "of_int m * 2 ^ j / 2 ^ 1074 * 2 ^ 1074 = s" by (simp add: s_def)
  have "\<bar>(of_int m :: rat)\<bar> < 2 ^ 53"
    using m by (metis of_int_abs of_int_less_iff of_int_numeral of_int_power)
  then have "\<bar>s\<bar> < 2 ^ 53 * 2 ^ j"
    by (simp add: s_def abs_mult)
  then have b: "\<bar>s\<bar> < 2 ^ (j + 53)"
    by (simp add: power_add mult.commute)
  from ulp_exp_le [OF _ j b] have k: "k \<le> j" by (simp add: k_def)
  then have p: "(2::rat) ^ j / 2 ^ k = 2 ^ (j - k)"
    by (simp add: power_diff)
  have "s / 2 ^ k = of_int m * (2 ^ j / 2 ^ k)"
    by (simp add: s_def)
  then have q: "s / 2 ^ k = of_int (m * 2 ^ (j - k))"
    by (simp add: p)
  have "of_int (round_half_even (s / 2 ^ k)) * 2 ^ k = (of_int m * (2 ^ (j - k) * 2 ^ k) :: rat)"
    unfolding q round_half_even_of_int by simp
  also have "\<dots> = s"
    using k by (simp add: s_def flip: power_add)
  finally have r: "of_int (round_half_even (s / 2 ^ k)) * 2 ^ k = s" .
  have "(2::rat) ^ (j + 53) \<le> 2 ^ (2045 + 53)"
    using j by (intro power_increasing) auto
  with b have "\<bar>s\<bar> < 2 ^ (2045 + 53)" by linarith
  then have "\<bar>s / 2 ^ 1074\<bar> < 2 ^ 1024"
    by (simp add: abs_divide divide_less_eq flip: power_add)
  then have n: "\<not> 2 ^ 1024 \<le> s / 2 ^ 1074" "\<not> s / 2 ^ 1074 \<le> - (2 ^ 1024)"
    by linarith+
  have "to_double (of_int m * 2 ^ j / 2 ^ 1074) = Fin (s / 2 ^ 1074)"
    unfolding to_double_def Let_def x k_def [symmetric] r using n by simp
  then show ?thesis by (simp add: s_def)
qed

lemma to_double_of_int:
  assumes "\<bar>n\<bar> < 2 ^ 53"
  shows "to_double (of_int n) = Fin (of_int n)"
  using to_double_exact [OF assms, of 1074] by simp

lemma to_double_half:
  assumes "\<bar>n\<bar> < 2 ^ 53"
  shows "to_double (of_int n / 2) = Fin (of_int n / 2)"
proof -
  have "(of_int n * 2 ^ 1073 / 2 ^ 1074 :: rat) = of_int n / 2"
    by simp
  with to_double_exact [OF assms, of 1073] show ?thesis by simp
qed

lemma to_double_zero [simp]: "to_double 0 = Fin 0"
  using to_double_of_int [of 0] by simp

lemma to_double_numeral [simp]:
  "numeral w < (2 ^ 53 :: int) \<Longrightarrow> to_double (numeral w) = Fin (numeral w)"
  using to_double_of_int [of "numeral w"] by simp

lemma to_double_neg_numeral [simp]:
  "numeral w < (2 ^ 53 :: int) \<Longrightarrow> to_double (- numeral w) = Fin (- numeral w)"
  using to_double_of_int [of "- numeral w"] by simp

lemma to_double_numeral_half [simp]:
  "numeral w < (2 ^ 53 :: int) \<Longrightarrow> to_double (numeral w / 2) = Fin (numeral w / 2)"
  using to_double_half [of "numeral w"] by simp

text \<open>
  A sum that is not a double is rounded: 0.3 + 0.7, that is the doubles nearest to them,
  is 1, the tie going to the even significand.
\<close>

lemma rounded_sum_example:
  "to_double (5404319552844595 / 2 ^ 54 + 3152519739159347 / 2 ^ 52) = Fin 1"
proof -
  have x: "(5404319552844595 / 2 ^ 54 + 3152519739159347 / 2 ^ 52 :: rat) = (2 ^ 54 - 1) / 2 ^ 54"
    by simp
  have s: "((2 ^ 54 - 1) / 2 ^ 54 * 2 ^ 1074 :: rat) = (2 ^ 54 - 1) * 2 ^ 1020"
    by simp
  have k: "ulp_exp ((2 ^ 54 - 1) * 2 ^ 1020) 0 = 1021"
    by (rule ulp_exp_unique) simp_all
  have q: "((2 ^ 54 - 1) * 2 ^ 1020 / 2 ^ 1021 :: rat) = 2 ^ 53 - 1 / 2"
    by simp
  have f: "\<lfloor>2 ^ 53 - 1 / 2 :: rat\<rfloor> = 2 ^ 53 - 1"
    by (simp add: floor_eq_iff)
  have r: "round_half_even (2 ^ 53 - 1 / 2) = 2 ^ 53"
    unfolding round_half_even_def Let_def f by simp
  show ?thesis
    unfolding x to_double_def Let_def s k q r by simp
qed


lemma bind_simps [simp]: "bind (Inr x) f = f x" "bind (Inl e) f = Inl e"
  by (simp_all add: bind_def)

lemma bind_eq_Inr: "bind m f = Inr y \<longleftrightarrow> (\<exists>x. m = Inr x \<and> f x = Inr y)"
  by (cases m) simp_all

lemma prop_get_simps [simp]:
  "prop_get JNull k = Inl TypeError"
  "prop_get (JObj kvs) k = Inr (map_of kvs k)"
  "prop_get (JBool b) k = Inr None"
  "prop_get (JNum n) k = Inr None"
  "prop_get (JStr s) k = Inr None"
  "prop_get (JArr xs) k = Inr None"
  by (simp_all add: prop_get_def)

lemma prop_get_own: "prop_get v k = Inr w \<Longrightarrow> w = own v k"
  by (cases v) (simp_all add: own_def)

lemma prop_get_Inr_iff: "prop_get v k = Inr w \<longleftrightarrow> v \<noteq> JNull \<and> w = own v k"
  by (cases v) (auto simp: own_def)

lemma opt_get_simps [simp]:
  "opt_get None k = Inr None"
  "opt_get (Some JNull) k = Inr None"
  "opt_get (Some (JObj kvs)) k = Inr (map_of kvs k)"
  "opt_get (Some (JBool b)) k = Inr None"
  "opt_get (Some (JNum n)) k = Inr None"
  "opt_get (Some (JStr s)) k = Inr None"
  "opt_get (Some (JArr xs)) k = Inr None"
  by (simp_all add: opt_get_def)

lemma truthy_simps [simp]:
  "truthy None = False"
  "truthy (Some JNull) = False"
  "truthy (Some (JBool b)) = b"
  "truthy (Some (JNum n)) = num_truthy n"
  "truthy (Some (JStr s)) = (s \<noteq> [])"
  "truthy (Some (JArr xs)) = True"
  "truthy (Some (JObj kvs)) = True"
  by (simp_all add: truthy_def)

lemma num_truthy_simps [simp]:
  "num_truthy NaN = False"
  "num_truthy PInf = True"
  "num_truthy NInf = True"
  "num_truthy (Fin x) = (x \<noteq> 0)"
  by (simp_all add: num_truthy_def)

lemma or_zero_simps [simp]:
  "or_zero NaN = Fin 0"
  "or_zero PInf = PInf"
  "or_zero NInf = NInf"
  "or_zero (Fin x) = Fin x"
  by (simp_all add: or_zero_def)

lemma to_number_simps [simp]:
  "to_number P None = Inr NaN"
  "to_number P (Some JNull) = Inr (Fin 0)"
  "to_number P (Some (JBool b)) = Inr (if b then Fin 1 else Fin 0)"
  "to_number P (Some (JNum n)) = Inr n"
  "to_number P (Some (JStr s)) = Inr (stringToNumber P s)"
  "to_number P (Some (JArr xs)) = bind (to_string P (JArr xs)) (\<lambda>s. Inr (stringToNumber P s))"
  "to_number P (Some (JObj kvs)) = bind (to_string P (JObj kvs)) (\<lambda>s. Inr (stringToNumber P s))"
  by (simp_all add: to_number_def)

lemma floor_half [simp]: "\<lfloor>1 / 2 :: rat\<rfloor> = 0"
  by (simp add: floor_eq_iff)

lemma floor_numeral_div [simp]: "\<lfloor>numeral a / numeral b :: rat\<rfloor> = numeral a div numeral b"
  using floor_divide_of_int_eq [of "numeral a" "numeral b", where ?'a = rat] by simp

lemma js_round_simps [simp]:
  "js_round NaN = NaN" "js_round PInf = PInf" "js_round NInf = NInf"
  "js_round (Fin x) = Fin (of_int \<lfloor>x + 1 / 2\<rfloor>)"
  by (simp_all add: js_round_def)

lemma js_div_pos_simps [simp]:
  "js_div_pos NaN d = NaN" "js_div_pos PInf d = PInf" "js_div_pos NInf d = NInf"
  "js_div_pos (Fin x) d = to_double (x / d)"
  by (simp_all add: js_div_pos_def)

lemma js_add_simps [simp]:
  "js_add NaN b = NaN" "js_add a NaN = NaN"
  "js_add PInf NInf = NaN" "js_add NInf PInf = NaN"
  "js_add PInf PInf = PInf" "js_add PInf (Fin y) = PInf" "js_add (Fin x) PInf = PInf"
  "js_add NInf NInf = NInf" "js_add NInf (Fin y) = NInf" "js_add (Fin x) NInf = NInf"
  "js_add (Fin x) (Fin y) = to_double (x + y)"
  by (simp_all add: js_add_def split: jsnum.splits)

lemma clampScore_simps [simp]:
  "clampScore NaN = Fin 0" "clampScore PInf = Fin 0" "clampScore NInf = Fin 0"
  "clampScore (Fin x) = Fin (max 0 (min 100 (of_int \<lfloor>x + 1 / 2\<rfloor>)))"
  by (simp_all add: clampScore_def js_min_def js_max_def)

lemma clamp_of_int:
  "max 0 (min 100 (of_int k)) = (of_int (if k < 0 then 0 else if 100 < k then 100 else k) :: rat)"
  by (auto simp: max_def min_def)

lemma clampScore_normalized: "clampScore v = normalizedScore v"
  by (cases v) (simp_all add: normalizedScore_def round_def clamp_of_int del: of_int_less_iff)

lemma valid_normalized: "valid_score (normalizedScore v)"
  by (cases v) (auto simp: normalizedScore_def valid_score_def)

lemma valid_clampScore: "valid_score (clampScore v)"
  by (simp add: clampScore_normalized valid_normalized)

lemma clampScore_round: "clampScore (js_round v) = clampScore v"
  by (cases v) simp_all

lemma clampScore_or_zero: "clampScore (or_zero v) = clampScore v"
  by (cases v) simp_all

lemmas mapResult_unfold =
  mapResult_def breakdownOf_def breakdownNumber_def summaryOf_def andString_def
  stringArray_def improvementsFlat_def categoryStrings_def mappedScores_def clampScores_def
  averaged_def overallOf_def

lemma mapResult_scores:
  assumes "mapResult P raw = Inr r"
  shows "\<exists>keywords fmt experience skills education.
           scores r = clampScores (mappedScores (overallOf P (own raw ''score'')) keywords fmt experience skills education)
         \<and> breakdownNumber P (breakdownOf (own raw ''breakdown'')) [''keywords'', ''keywordsScore''] = Inr keywords
         \<and> breakdownNumber P (breakdownOf (own raw ''breakdown'')) [''formatting''] = Inr fmt
         \<and> breakdownNumber P (breakdownOf (own raw ''breakdown'')) [''experience''] = Inr experience
         \<and> breakdownNumber P (breakdownOf (own raw ''breakdown'')) [''skills''] = Inr skills
         \<and> breakdownNumber P (breakdownOf (own raw ''breakdown'')) [''education''] = Inr education"
  using assms unfolding mapResult_def
  by (auto simp: bind_eq_Inr prop_get_Inr_iff)

lemma mapResult_lists:
  assumes "mapResult P raw = Inr r"
  shows "improvements r = improvementsFlat (own raw ''improvements'')"
    and "opt_get (own raw ''improvements'') ''critical'' = Inr c \<Longrightarrow> criticalIssues r = stringArray c"
    and "opt_get (own raw ''improvements'') ''suggested'' = Inr c \<Longrightarrow> suggestions r = stringArray c"
    and "strengths r = stringArray (own raw ''strengths'')"
  using assms unfolding mapResult_def
  by (auto simp: bind_eq_Inr prop_get_Inr_iff)

lemma prop_get_not_null: "v \<noteq> JNull \<Longrightarrow> prop_get v k = Inr (own v k)"
  by (cases v) (simp_all add: own_def)

lemma mapResult_empty_object: "mapResult P (JObj []) = Inr empty_result"
  by (simp add: mapResult_unfold empty_result_def)

lemma mapResult_number: "mapResult P (JNum n) = Inr empty_result"
  by (simp add: mapResult_unfold empty_result_def)

lemma breakdownNumber_missing:
  "breakdownNumber P (JObj []) ks = Inr (Fin 0)"
  by (induction ks) (simp_all add: breakdownNumber_def)

lemma averaged_zero: "averaged (Fin 0) (Fin 0) = Fin 0"
  by (simp add: averaged_def)

lemma overall_normalized:
  "clampScore (js_round (overallOf P v)) = normalizedScore (numericReading P v)"
proof -
  have "clampScore (overallOf P v) = clampScore (numericReading P v)"
    by (auto simp: overallOf_def numericReading_def clampScore_or_zero
             split: option.splits json.splits)
  moreover have "clampScore (js_round (overallOf P v)) = clampScore (overallOf P v)"
    by (rule clampScore_round)
  ultimately show ?thesis by (simp only: clampScore_normalized)
qed

section \<open>The scores of the result\<close>

text \<open>
  The examples of the specification: a score of 150, keywords of -10, a formatting that
  is not a number, an experience of \<^verbatim>\<open>null\<close>.
\<close>

lemma out_of_range_and_non_numeric_examples:
  assumes "stringToNumber P ''n/a'' = NaN"
  shows "mapResult P
           (JObj [(''score'', JNum (Fin 150)),
                  (''breakdown'',
                   JObj [(''keywords'', JNum (Fin (- 10))), (''formatting'', JStr ''n/a''),
                         (''experience'', JNull)])])
         = Inr \<lparr> scores = \<lparr> overall = Fin 100, atsCompatibility = Fin 0,
                            keywordOptimization = Fin 0, formatting = Fin 0, impact = Fin 0 \<rparr>,
                 summary = [], strengths = [], improvements = [],
                 criticalIssues = [], suggestions = [] \<rparr>"
  using assms by (simp add: mapResult_unfold)

text \<open>
  The numbers that the mapping reads in the breakdown are the readings defined with the
  properties.
\<close>

lemma presentValues_Nil [simp]: "presentValues b [] = []"
  by (simp add: presentValues_def List.map_filter_simps)

lemma presentValues_Cons:
  "presentValues b (k # ks) =
     (case own b k of
        None \<Rightarrow> presentValues b ks
      | Some v \<Rightarrow> (if v = JNull then presentValues b ks else v # presentValues b ks))"
  by (simp add: presentValues_def List.map_filter_simps split: option.splits)

lemma firstPresent_spec:
  assumes "b \<noteq> JNull"
  shows "firstPresent b ks =
           Inr (case presentValues b ks of [] \<Rightarrow> Some (JNum (Fin 0)) | v # _ \<Rightarrow> Some v)"
proof (induction ks)
  case Nil
  show ?case by simp
next
  case (Cons k ks)
  then show ?case
    by (simp add: prop_get_not_null [OF assms] presentValues_Cons split: option.splits)
qed

lemma breakdownOf_not_null: "breakdownOf v \<noteq> JNull"
  by (auto simp: breakdownOf_def split: option.splits)

lemma presentValues_not_object [simp]: "presentValues (JObj []) ks = []"
  by (induction ks) (simp_all add: presentValues_Cons own_def)

lemma breakdownNumber_reading:
  assumes "breakdownNumber P (breakdownOf (own raw ''breakdown'')) ks = Inr n"
  shows "n = breakdownReading P raw ks"
proof -
  let ?b = "breakdownOf (own raw ''breakdown'')"
  let ?v = "case presentValues ?b ks of [] \<Rightarrow> Some (JNum (Fin 0)) | v # _ \<Rightarrow> Some v"
  have fp: "firstPresent ?b ks = Inr ?v"
    by (rule firstPresent_spec [OF breakdownOf_not_null])
  with assms obtain m where m: "to_number P ?v = Inr m" "n = or_zero m"
    by (auto simp: breakdownNumber_def bind_eq_Inr)
  have z: "or_zero m = (if m = NaN then Fin 0 else m)"
    by (cases m) simp_all
  show ?thesis
  proof (cases "own raw ''breakdown''")
    case None
    with m show ?thesis by (auto simp: breakdownReading_def breakdownOf_def)
  next
    case (Some w)
    show ?thesis
    proof (cases "truthy (Some w)")
      case False
      with Some m show ?thesis by (auto simp: breakdownReading_def breakdownOf_def)
    next
      case True
      with Some have b: "?b = w" by (simp add: breakdownOf_def)
      show ?thesis
      proof (cases "presentValues w ks")
        case Nil
        with Some True m b show ?thesis by (auto simp: breakdownReading_def)
      next
        case (Cons v vs)
        with Some True m b z show ?thesis by (auto simp: breakdownReading_def)
      qed
    qed
  qed
qed

lemma normalized_or_zero: "normalizedScore (or_zero v) = normalizedScore v"
  using clampScore_or_zero [of v] by (simp only: clampScore_normalized)

lemma normalized_round: "normalizedScore (js_round v) = normalizedScore v"
  using clampScore_round [of v] by (simp only: clampScore_normalized)

lemma to_double_div_zero [simp]: "to_double (0 / d) = Fin 0"
  by simp

lemma averaged_normalized:
  assumes "a \<noteq> NaN" "b \<noteq> NaN" "(a = Fin 0) = (b = Fin 0)"
  shows "clampScore (averaged a b) = normalizedScore (js_div_pos (js_add a b) 2)"
proof (cases "a = Fin 0")
  case True
  with assms have "b = Fin 0" by simp
  with True show ?thesis
    by (simp add: averaged_def normalizedScore_def)
next
  case False
  with assms have "num_truthy a" by (simp add: num_truthy_def)
  then show ?thesis
    by (simp add: averaged_def clampScore_normalized normalized_or_zero normalized_round)
qed

lemma breakdownReading_not_NaN: "breakdownReading P raw ks \<noteq> NaN"
  by (auto simp: breakdownReading_def split: option.splits list.splits sum.splits)

text \<open>
  Claim C1, as stated, fails for a value that is not a number but that \<^verbatim>\<open>Number\<close> reads
  as one: keywords of \<^verbatim>\<open>true\<close> give a keyword score of 1, not 0.
\<close>

theorem boolean_counts_as_one_counterexample:
  "own (JObj [(''keywords'', JBool True)]) ''keywords'' = Some (JBool True)
   \<and> mapResult sample_platform (JObj [(''breakdown'', JObj [(''keywords'', JBool True)])])
     = Inr \<lparr> scores = \<lparr> overall = Fin 0, atsCompatibility = Fin 0,
                        keywordOptimization = Fin 1, formatting = Fin 0, impact = Fin 0 \<rparr>,
             summary = [], strengths = [], improvements = [],
             criticalIssues = [], suggestions = [] \<rparr>"
  by (simp add: mapResult_unfold own_def)

text \<open>
  Claim C1, amended.  Whenever the mapping of a decoded payload returns a result, each of
  its five scores is an integer from 0 to 100, and is the normalisation (not a number or
  infinite gives 0, otherwise rounded and clamped) of a reading of the payload.  The
  overall score reads the \<^verbatim>\<open>score\<close> field, a number or a string read as a number, and
  nothing else.  The keyword and formatting scores read what \<^verbatim>\<open>Number\<close> makes of
  \<^verbatim>\<open>breakdown.keywords\<close> (failing that \<^verbatim>\<open>breakdown.keywordsScore\<close>) and of
  \<^verbatim>\<open>breakdown.formatting\<close>, 0 when missing or \<^verbatim>\<open>null\<close>.  The ATS and impact scores
  are the average of their two readings when both or neither of these is zero.
\<close>

theorem scores_within_range:
  assumes "mapResult P raw = Inr r"
  shows "valid_score (overall (scores r)) \<and>
         valid_score (atsCompatibility (scores r)) \<and>
         valid_score (keywordOptimization (scores r)) \<and>
         valid_score (formatting (scores r)) \<and>
         valid_score (impact (scores r)) \<and>
         overall (scores r) = normalizedScore (numericReading P (own raw ''score'')) \<and>
         keywordOptimization (scores r) =
           normalizedScore (breakdownReading P raw [''keywords'', ''keywordsScore'']) \<and>
         formatting (scores r) = normalizedScore (breakdownReading P raw [''formatting'']) \<and>
         ((breakdownReading P raw [''experience''] = Fin 0) =
          (breakdownReading P raw [''education''] = Fin 0) \<longrightarrow>
            atsCompatibility (scores r) =
              normalizedScore
                (js_div_pos (js_add (breakdownReading P raw [''experience''])
                                    (breakdownReading P raw [''education''])) 2)) \<and>
         ((breakdownReading P raw [''skills''] = Fin 0) =
          (breakdownReading P raw [''experience''] = Fin 0) \<longrightarrow>
            impact (scores r) =
              normalizedScore
                (js_div_pos (js_add (breakdownReading P raw [''skills''])
                                    (breakdownReading P raw [''experience''])) 2))"
proof -
  from mapResult_scores [OF assms] obtain kwd fmt experience skills education where
    sc: "scores r = clampScores (mappedScores (overallOf P (own raw ''score'')) kwd fmt experience skills education)"
    and kw: "breakdownNumber P (breakdownOf (own raw ''breakdown'')) [''keywords'', ''keywordsScore''] = Inr kwd"
    and fm: "breakdownNumber P (breakdownOf (own raw ''breakdown'')) [''formatting''] = Inr fmt"
    and ex: "breakdownNumber P (breakdownOf (own raw ''breakdown'')) [''experience''] = Inr experience"
    and sk: "breakdownNumber P (breakdownOf (own raw ''breakdown'')) [''skills''] = Inr skills"
    and ed: "breakdownNumber P (breakdownOf (own raw ''breakdown'')) [''education''] = Inr education"
    by blast
  note rd = breakdownNumber_reading [OF kw] breakdownNumber_reading [OF fm]
    breakdownNumber_reading [OF ex] breakdownNumber_reading [OF sk] breakdownNumber_reading [OF ed]
  have range: "valid_score (overall (scores r))" "valid_score (atsCompatibility (scores r))"
      "valid_score (keywordOptimization (scores r))" "valid_score (formatting (scores r))"
      "valid_score (impact (scores r))"
    by (simp_all add: sc clampScores_def valid_clampScore)
  have ov: "overall (scores r) = normalizedScore (numericReading P (own raw ''score''))"
    by (simp add: sc clampScores_def mappedScores_def overall_normalized)
  have k: "keywordOptimization (scores r) =
           normalizedScore (breakdownReading P raw [''keywords'', ''keywordsScore''])"
    by (simp add: sc clampScores_def mappedScores_def clampScore_normalized
          normalized_or_zero normalized_round rd)
  have f: "formatting (scores r) = normalizedScore (breakdownReading P raw [''formatting''])"
    by (simp add: sc clampScores_def mappedScores_def clampScore_normalized
          normalized_or_zero normalized_round rd)
  have a: "atsCompatibility (scores r) =
              normalizedScore
                (js_div_pos (js_add (breakdownReading P raw [''experience''])
                                    (breakdownReading P raw [''education''])) 2)"
    if "(breakdownReading P raw [''experience''] = Fin 0) =
          (breakdownReading P raw [''education''] = Fin 0)"
    using averaged_normalized [OF breakdownReading_not_NaN breakdownReading_not_NaN that]
    by (simp add: sc clampScores_def mappedScores_def rd)
  have i: "impact (scores r) =
              normalizedScore
                (js_div_pos (js_add (breakdownReading P raw [''skills''])
                                    (breakdownReading P raw [''experience''])) 2)"
    if "(breakdownReading P raw [''skills''] = Fin 0) =
          (breakdownReading P raw [''experience''] = Fin 0)"
    using averaged_normalized [OF breakdownReading_not_NaN breakdownReading_not_NaN that]
    by (simp add: sc clampScores_def mappedScores_def rd)
  from range ov k f a i show ?thesis by blast
qed

theorem scores_within_range_witness:
  "mapResult sample_platform scenario_payload =
     Inr \<lparr> scores = \<lparr> overall = Fin 85, atsCompatibility = Fin 90, keywordOptimization = Fin 80,
                      formatting = Fin 90, impact = Fin 80 \<rparr>,
           summary = [], strengths = [''Clear history''], improvements = [''Add metrics''],
           criticalIssues = [''Add metrics''], suggestions = [] \<rparr>
   \<and> breakdownReading sample_platform scenario_payload [''experience''] = Fin 85
   \<and> breakdownReading sample_platform scenario_payload [''education''] = Fin 95
   \<and> breakdownReading sample_platform scenario_payload [''skills''] = Fin 75
   \<and> breakdownReading sample_platform scenario_payload [''keywords'', ''keywordsScore''] = Fin 80
   \<and> breakdownReading sample_platform scenario_payload [''formatting''] = Fin 90
   \<and> numericReading sample_platform (own scenario_payload ''score'') = Fin 85
   \<and> normalizedScore (js_div_pos (js_add (Fin 85) (Fin 95)) 2) = Fin 90
   \<and> normalizedScore (js_div_pos (js_add (Fin 75) (Fin 85)) 2) = Fin 80
   \<and> valid_score (Fin 85) \<and> valid_score (Fin 90) \<and> valid_score (Fin 80)"
proof -
  have m: "mapResult sample_platform scenario_payload =
     Inr \<lparr> scores = \<lparr> overall = Fin 85, atsCompatibility = Fin 90, keywordOptimization = Fin 80,
                      formatting = Fin 90, impact = Fin 80 \<rparr>,
           summary = [], strengths = [''Clear history''], improvements = [''Add metrics''],
           criticalIssues = [''Add metrics''], suggestions = [] \<rparr>"
    by (simp add: scenario_payload_def mapResult_unfold)
  have r: "breakdownReading sample_platform scenario_payload [''experience''] = Fin 85"
    "breakdownReading sample_platform scenario_payload [''education''] = Fin 95"
    "breakdownReading sample_platform scenario_payload [''skills''] = Fin 75"
    "breakdownReading sample_platform scenario_payload [''keywords'', ''keywordsScore''] = Fin 80"
    "breakdownReading sample_platform scenario_payload [''formatting''] = Fin 90"
    by (simp_all add: scenario_payload_def breakdownReading_def own_def presentValues_Cons)
  have n: "numericReading sample_platform (own scenario_payload ''score'') = Fin 85"
    by (simp add: scenario_payload_def numericReading_def own_def)
  have h1: "(breakdownReading sample_platform scenario_payload [''experience''] = Fin 0) =
          (breakdownReading sample_platform scenario_payload [''education''] = Fin 0)"
    by (simp add: r)
  have h2: "(breakdownReading sample_platform scenario_payload [''skills''] = Fin 0) =
          (breakdownReading sample_platform scenario_payload [''experience''] = Fin 0)"
    by (simp add: r)
  note t = scores_within_range [OF m]
  from t h1 h2 m r n show ?thesis
    by simp
qed

text \<open>
  The sum is rounded before it is halved: an experience of 0.3 and an education of 0.7
  give 1, not 0.
\<close>

lemma rounded_sum_in_average:
  "averaged (Fin (5404319552844595 / 2 ^ 54)) (Fin (3152519739159347 / 2 ^ 52)) = Fin 1"
proof -
  have h: "to_double (1 / 2) = Fin (1 / 2)"
    using to_double_half [of 1] by simp
  have "js_add (Fin (5404319552844595 / 2 ^ 54)) (Fin (3152519739159347 / 2 ^ 52)) = Fin 1"
    by (simp only: js_add_simps rounded_sum_example)
  then show ?thesis
    by (simp add: averaged_def h)
qed

text \<open>
  What the normaliser computes for a derived score from two integers: always half the sum,
  rounded.
\<close>

lemma averaged_halves:
  assumes "\<bar>m + n\<bar> < 2 ^ 53"
  shows "averaged (Fin (of_int m)) (Fin (of_int n)) = Fin (of_int (round (of_int (m + n) / 2 :: rat)))"
proof -
  have s: "js_add (Fin (of_int m)) (Fin (of_int n)) = Fin (of_int (m + n))"
    using to_double_of_int [OF assms] by simp
  show ?thesis
  proof (cases "m = 0 \<and> n = 0")
    case True
    then show ?thesis by (simp add: averaged_def round_def)
  next
    case False
    then have "num_truthy (Fin (of_int m)) \<or> num_truthy (Fin (of_int n))" by simp
    then show ?thesis
      unfolding averaged_def s
      using to_double_half [OF assms] by (simp add: round_def)
  qed
qed

text \<open>
  Claim C2.  The specification asks for the single-value rule: when only one of the two
  contributions is present and not zero, it is the score.  The history view computes this
  (\<^verbatim>\<open>exp && edu ? 2 : 1\<close>); the normaliser divides by 2 as soon as one contribution is
  not zero (\<^verbatim>\<open>experience || education ? 2 : 1\<close>).  For a breakdown with an experience of
  80, skills of 70 and no education, the normaliser answers an ATS compatibility of 40,
  where the rule, and the history view on the same value, give 80.
\<close>

theorem average_halves_single_value:
  "mapResult P (JObj [(''breakdown'', JObj [(''experience'', JNum (Fin 80)), (''skills'', JNum (Fin 70))])])
     = Inr \<lparr> scores = \<lparr> overall = Fin 0, atsCompatibility = Fin 40, keywordOptimization = Fin 0,
                        formatting = Fin 0, impact = Fin 75 \<rparr>,
             summary = [], strengths = [], improvements = [], criticalIssues = [], suggestions = [] \<rparr>
   \<and> singleNonzeroAverage 80 0 = 80
   \<and> atsRaw P (JObj [(''breakdown'', JObj [(''experience'', JNum (Fin 80)), (''skills'', JNum (Fin 70))])])
     = Inr (Some (JNum (Fin 80)))"
  by (simp add: mapResult_unfold singleNonzeroAverage_def atsRaw_def historyAverage_def)

text \<open>
  Claim C3, as stated, fails: a payload that holds only a nested
  \<^verbatim>\<open>scores.overall\<close> of 85 is given the overall score 0.
\<close>

theorem nested_overall_ignored_counterexample:
  "own (JObj [(''scores'', JObj [(''overall'', JNum (Fin 85))])]) ''scores'' = Some (JObj [(''overall'', JNum (Fin 85))])
   \<and> mapResult sample_platform (JObj [(''scores'', JObj [(''overall'', JNum (Fin 85))])])
     = Inr \<lparr> scores = \<lparr> overall = Fin 0, atsCompatibility = Fin 0, keywordOptimization = Fin 0,
                        formatting = Fin 0, impact = Fin 0 \<rparr>,
             summary = [], strengths = [], improvements = [], criticalIssues = [], suggestions = [] \<rparr>"
  by (simp add: mapResult_unfold own_def)

text \<open>The history view, for its part, prefers the nested score.\<close>

lemma history_prefers_nested_overall:
  "overallRaw P (JObj [(''scores'', JObj [(''overall'', JNum (Fin 85))])]) = Inr (Some (JNum (Fin 85)))"
  by (simp add: overallRaw_def)

text \<open>
  Claim C3, amended.  The normaliser reads the flat \<^verbatim>\<open>score\<close> field only: the overall
  score is the normalised value of that field, a number or a string that reads as one,
  and 0 otherwise; a nested \<^verbatim>\<open>scores\<close> object in the payload changes nothing in the
  result.
\<close>

theorem overall_from_flat_score:
  "(mapResult P raw = Inr r \<longrightarrow>
      overall (scores r) = normalizedScore (numericReading P (own raw ''score''))) \<and>
   mapResult P (JObj ((''scores'', v) # kvs)) = mapResult P (JObj kvs)"
proof -
  have a: "overall (scores r) = normalizedScore (numericReading P (own raw ''score''))"
    if "mapResult P raw = Inr r"
  proof -
    from mapResult_scores [OF that] obtain kwd fmt experience skills education where
      "scores r = clampScores (mappedScores (overallOf P (own raw ''score'')) kwd fmt experience skills education)"
      by blast
    then show ?thesis
      by (simp add: clampScores_def mappedScores_def overall_normalized)
  qed
  have "summaryOf P (JObj ((''scores'', v) # kvs)) = summaryOf P (JObj kvs)"
    by (simp add: summaryOf_def cong: if_cong)
  then have b: "mapResult P (JObj ((''scores'', v) # kvs)) = mapResult P (JObj kvs)"
    by (simp add: mapResult_def)
  from a b show ?thesis by blast
qed

theorem overall_from_flat_score_witness:
  "mapResult sample_platform (JObj [(''score'', JStr ''85'')]) =
     Inr \<lparr> scores = \<lparr> overall = Fin 85, atsCompatibility = Fin 0, keywordOptimization = Fin 0,
                      formatting = Fin 0, impact = Fin 0 \<rparr>,
           summary = [], strengths = [], improvements = [], criticalIssues = [], suggestions = [] \<rparr>
   \<and> normalizedScore (numericReading sample_platform (own (JObj [(''score'', JStr ''85'')]) ''score'')) = Fin 85"
proof -
  have m: "mapResult sample_platform (JObj [(''score'', JStr ''85'')]) =
     Inr \<lparr> scores = \<lparr> overall = Fin 85, atsCompatibility = Fin 0, keywordOptimization = Fin 0,
                      formatting = Fin 0, impact = Fin 0 \<rparr>,
           summary = [], strengths = [], improvements = [], criticalIssues = [], suggestions = [] \<rparr>"
    by (simp add: mapResult_unfold sample_platform_def sampleStringToNumber_def is_digit_def)
  from overall_from_flat_score [of sample_platform "JObj [(''score'', JStr ''85'')]", THEN conjunct1, rule_format, OF m] m
  show ?thesis by simp
qed

section \<open>The lists of the result\<close>

lemma opt_get_total: "opt_get v k = Inr (case v of Some w \<Rightarrow> own w k | None \<Rightarrow> None)"
  by (cases v; cases "the v") (simp_all add: own_def)

lemma set_categoryStrings:
  "k \<in> set [''critical'', ''important'', ''suggested'', ''recommended''] \<Longrightarrow>
   set (categoryStrings kvs k) \<subseteq> set (improvementsFlat (Some (JObj kvs)))"
  by (auto simp: improvementsFlat_def)

text \<open>
  Claim C10.  Whenever the mapping returns a result, every critical issue and every
  suggestion is also in the flat list of improvements.  The critical issues are the
  strings of \<^verbatim>\<open>improvements.critical\<close>, the suggestions those of
  \<^verbatim>\<open>improvements.suggested\<close>, when \<^verbatim>\<open>improvements\<close> is an object that is not an
  array, and both are empty otherwise (an array, or no such field); the flat list is then
  the strings of the four categories in their fixed order.
\<close>

theorem categorized_lists_within_improvements:
  assumes "mapResult P raw = Inr r"
  shows "set (criticalIssues r) \<subseteq> set (improvements r)
       \<and> set (suggestions r) \<subseteq> set (improvements r)
       \<and> criticalIssues r =
           (case own raw ''improvements'' of
              Some (JObj kvs) \<Rightarrow> categoryStrings kvs ''critical'' | _ \<Rightarrow> [])
       \<and> suggestions r =
           (case own raw ''improvements'' of
              Some (JObj kvs) \<Rightarrow> categoryStrings kvs ''suggested'' | _ \<Rightarrow> [])
       \<and> improvements r =
           (case own raw ''improvements'' of
              Some (JArr xs) \<Rightarrow> strings_of xs
            | Some (JObj kvs) \<Rightarrow>
                categoryStrings kvs ''critical'' @ categoryStrings kvs ''important'' @
                categoryStrings kvs ''suggested'' @ categoryStrings kvs ''recommended''
            | _ \<Rightarrow> [])"
proof -
  let ?imp = "own raw ''improvements''"
  have flat: "improvements r = improvementsFlat ?imp"
    by (rule mapResult_lists(1) [OF assms])
  have crit: "criticalIssues r = stringArray (case ?imp of Some w \<Rightarrow> own w ''critical'' | None \<Rightarrow> None)"
    by (rule mapResult_lists(2) [OF assms]) (rule opt_get_total)
  have sugg: "suggestions r = stringArray (case ?imp of Some w \<Rightarrow> own w ''suggested'' | None \<Rightarrow> None)"
    by (rule mapResult_lists(3) [OF assms]) (rule opt_get_total)
  have c: "criticalIssues r =
           (case ?imp of Some (JObj kvs) \<Rightarrow> categoryStrings kvs ''critical'' | _ \<Rightarrow> [])"
    unfolding crit
    by (simp add: stringArray_def own_def categoryStrings_def split: option.splits json.splits)
  have s: "suggestions r =
           (case ?imp of Some (JObj kvs) \<Rightarrow> categoryStrings kvs ''suggested'' | _ \<Rightarrow> [])"
    unfolding sugg
    by (simp add: stringArray_def own_def categoryStrings_def split: option.splits json.splits)
  have i: "improvements r =
           (case ?imp of
              Some (JArr xs) \<Rightarrow> strings_of xs
            | Some (JObj kvs) \<Rightarrow>
                categoryStrings kvs ''critical'' @ categoryStrings kvs ''important'' @
                categoryStrings kvs ''suggested'' @ categoryStrings kvs ''recommended''
            | _ \<Rightarrow> [])"
    unfolding flat
    by (simp add: improvementsFlat_def split: option.splits json.splits)
  have "set (criticalIssues r) \<subseteq> set (improvements r)"
    unfolding c i by (auto split: option.splits json.splits)
  moreover have "set (suggestions r) \<subseteq> set (improvements r)"
    unfolding s i by (auto split: option.splits json.splits)
  ultimately show ?thesis using c s i by blast
qed

theorem categorized_lists_within_improvements_witness:
  "mapResult sample_platform categorized_payload =
     Inr \<lparr> scores = \<lparr> overall = Fin 85, atsCompatibility = Fin 0, keywordOptimization = Fin 0,
                      formatting = Fin 0, impact = Fin 0 \<rparr>,
           summary = [], strengths = [''Clear history''],
           improvements = [''Add metrics'', ''Add a summary'', ''List certifications''],
           criticalIssues = [''Add metrics''], suggestions = [''List certifications''] \<rparr>
   \<and> set [''Add metrics''] \<subseteq> set [''Add metrics'', ''Add a summary'', ''List certifications'']
   \<and> set [''List certifications''] \<subseteq> set [''Add metrics'', ''Add a summary'', ''List certifications'']"
proof -
  have m: "mapResult sample_platform categorized_payload =
     Inr \<lparr> scores = \<lparr> overall = Fin 85, atsCompatibility = Fin 0, keywordOptimization = Fin 0,
                      formatting = Fin 0, impact = Fin 0 \<rparr>,
           summary = [], strengths = [''Clear history''],
           improvements = [''Add metrics'', ''Add a summary'', ''List certifications''],
           criticalIssues = [''Add metrics''], suggestions = [''List certifications''] \<rparr>"
    by (simp add: categorized_payload_def mapResult_unfold)
  note t = categorized_lists_within_improvements [OF m]
  from t [THEN conjunct1] t [THEN conjunct2, THEN conjunct1] m show ?thesis
    by simp
qed

section \<open>The extraction of text\<close>

lemma rev_dropWhile_rev_Cons:
  "\<not> Q x \<Longrightarrow> rev (dropWhile Q (rev (x # xs))) = x # rev (dropWhile Q (rev xs))"
  by (simp add: dropWhile_append)

lemma dropWhile_trim: "dropWhile js_space (trim s) = trim s"
proof (cases "dropWhile js_space s")
  case Nil
  show ?thesis unfolding trim_def Nil by simp
next
  case (Cons x xs)
  then have "\<not> js_space x"
    by (metis hd_dropWhile list.sel(1) list.distinct(1))
  then show ?thesis
    by (simp add: trim_def Cons rev_dropWhile_rev_Cons del: rev.simps)
qed

lemma trim_idem: "trim (trim s) = trim s"
proof -
  have "trim (trim s) = rev (dropWhile js_space (rev (trim s)))"
    by (simp add: trim_def [of "trim s"] dropWhile_trim)
  also have "\<dots> = trim s"
    by (simp add: trim_def)
  finally show ?thesis .
qed

text \<open>
  Claim C6, as stated, fails at the threshold itself: a document whose trimmed text has
  exactly 50 characters, which is not fewer than the threshold, is rejected.
\<close>

theorem pdf_of_fifty_characters_counterexample:
  "pdfPages sample_platform ''%PDF-1.4 scanned resume, pictures and no text, end'' =
     Inr [[''%PDF-1.4 scanned resume, pictures and no text, end'']]
   \<and> length (trim (documentText [[''%PDF-1.4 scanned resume, pictures and no text, end'']])) = 50
   \<and> \<not> length (trim (documentText [[''%PDF-1.4 scanned resume, pictures and no text, end'']])) < 50
   \<and> fst (extractTextFromFile sample_platform scanned_pdf) =
       Inl (''Could not extract readable text from PDF. Please try converting '' @
            ''your PDF to a text file or copy-paste the content.'')"
  by code_simp

text \<open>
  Claim C6, amended.  For a PDF that the library can read, the extraction succeeds, with
  the trimmed text, exactly when the trimmed text has more than 50 characters, and fails
  with the message for unreadable documents otherwise; no text whose trimmed length is 50
  or less is ever returned.
\<close>

theorem pdf_text_must_exceed_threshold:
  assumes "type f = ''application/pdf''"
    and "content f = Some bytes"
    and "pdfPages P bytes = Inr pages"
  shows "fst (extractTextFromFile P f) =
           (if 50 < length (trim (documentText pages)) then Inr (trim (documentText pages))
            else Inl (''Could not extract readable text from PDF. Please try converting '' @
                      ''your PDF to a text file or copy-paste the content.''))
         \<and> (\<forall>t. fst (extractTextFromFile P f) = Inr t \<longrightarrow> 50 < length (trim t))"
  using assms by (auto simp: extractTextFromFile_def trim_idem)

theorem pdf_text_must_exceed_threshold_witness:
  "type resume_pdf = ''application/pdf''
   \<and> content resume_pdf = Some ''%PDF-1.4 Jane Doe, software engineer, ten years of experience in Go''
   \<and> pdfPages sample_platform ''%PDF-1.4 Jane Doe, software engineer, ten years of experience in Go''
       = Inr [[''%PDF-1.4 Jane Doe, software engineer, ten years of experience in Go'']]
   \<and> fst (extractTextFromFile sample_platform resume_pdf)
       = Inr ''%PDF-1.4 Jane Doe, software engineer, ten years of experience in Go''
   \<and> 50 < length (trim ''%PDF-1.4 Jane Doe, software engineer, ten years of experience in Go'')"
proof -
  have a: "type resume_pdf = ''application/pdf''" by (simp add: resume_pdf_def)
  have b: "content resume_pdf = Some ''%PDF-1.4 Jane Doe, software engineer, ten years of experience in Go''"
    by (simp add: resume_pdf_def)
  have c: "pdfPages sample_platform ''%PDF-1.4 Jane Doe, software engineer, ten years of experience in Go''
       = Inr [[''%PDF-1.4 Jane Doe, software engineer, ten years of experience in Go'']]"
    by code_simp
  have d: "trim (documentText [[''%PDF-1.4 Jane Doe, software engineer, ten years of experience in Go'']])
       = ''%PDF-1.4 Jane Doe, software engineer, ten years of experience in Go''"
    by code_simp
  from pdf_text_must_exceed_threshold [OF a b c] a b c d show ?thesis
    by simp
qed

text \<open>
  Claim C8.  A file declared as a Word document, of either type, is rejected with the
  fixed message, whatever its bytes and whatever the platform would make of them; nothing
  is logged.
\<close>

theorem word_documents_rejected:
  assumes "type f = ''application/msword'' \<or>
           type f = ''application/vnd.openxmlformats-officedocument.wordprocessingml.document''"
  shows "extractTextFromFile P f =
           (Inl ''Word documents are not supported yet. Please convert your resume to PDF or text format.'',
            [])"
  using assms by (auto simp: extractTextFromFile_def)

theorem word_documents_rejected_witness:
  "(type resume_doc = ''application/msword'' \<or>
    type resume_doc = ''application/vnd.openxmlformats-officedocument.wordprocessingml.document'')
   \<and> extractTextFromFile sample_platform resume_doc =
       (Inl ''Word documents are not supported yet. Please convert your resume to PDF or text format.'',
        [])"
proof -
  have a: "type resume_doc = ''application/msword'' \<or>
    type resume_doc = ''application/vnd.openxmlformats-officedocument.wordprocessingml.document''"
    by (simp add: resume_doc_def)
  from word_documents_rejected [OF a] a show ?thesis by simp
qed

text \<open>
  Claim C7.  A file of any other declared type goes through the PDF extraction: it yields
  a text exactly when the same file declared as a PDF does, and then the same text, of
  more than 50 characters once trimmed; the error about an unsupported file type is
  reported exactly when the file can be read and the PDF library fails on its bytes.
\<close>

theorem unknown_type_falls_back_to_pdf:
  assumes "type f \<noteq> ''text/plain''"
    and "type f \<noteq> ''application/pdf''"
    and "type f \<noteq> ''application/msword''"
    and "type f \<noteq> ''application/vnd.openxmlformats-officedocument.wordprocessingml.document''"
  shows "(\<forall>t. fst (extractTextFromFile P f) = Inr t \<longleftrightarrow>
              fst (extractTextFromFile P (f\<lparr>type := ''application/pdf''\<rparr>)) = Inr t)
       \<and> (\<forall>t. fst (extractTextFromFile P f) = Inr t \<longrightarrow> 50 < length (trim t))
       \<and> (fst (extractTextFromFile P f) = Inl ''Unsupported file type. Please use PDF or text files.''
            \<longleftrightarrow> (\<exists>bytes err. content f = Some bytes \<and> pdfPages P bytes = Inl err))"
  using assms
  by (auto simp: extractTextFromFile_def trim_idem split: option.splits sum.splits)

theorem unknown_type_falls_back_to_pdf_witness:
  "type resume_bin \<noteq> ''text/plain'' \<and> type resume_bin \<noteq> ''application/pdf''
   \<and> type resume_bin \<noteq> ''application/msword''
   \<and> type resume_bin \<noteq> ''application/vnd.openxmlformats-officedocument.wordprocessingml.document''
   \<and> fst (extractTextFromFile sample_platform resume_bin)
       = Inr ''%PDF-1.4 Jane Doe, software engineer, ten years of experience in Go''
   \<and> fst (extractTextFromFile sample_platform (resume_bin\<lparr>type := ''application/pdf''\<rparr>))
       = Inr ''%PDF-1.4 Jane Doe, software engineer, ten years of experience in Go''
   \<and> 50 < length (trim ''%PDF-1.4 Jane Doe, software engineer, ten years of experience in Go'')"
proof -
  have a: "type resume_bin \<noteq> ''text/plain''" "type resume_bin \<noteq> ''application/pdf''"
    "type resume_bin \<noteq> ''application/msword''"
    "type resume_bin \<noteq> ''application/vnd.openxmlformats-officedocument.wordprocessingml.document''"
    by (simp_all add: resume_bin_def)
  have e: "fst (extractTextFromFile sample_platform resume_bin)
       = Inr ''%PDF-1.4 Jane Doe, software engineer, ten years of experience in Go''"
    by code_simp
  from unknown_type_falls_back_to_pdf [OF a, of sample_platform] a e show ?thesis
    by auto
qed

section \<open>The location of the payload\<close>

lemma brace_match_no_close: "CHR ''}'' \<notin> set t \<Longrightarrow> brace_match t = None"
  by (induction t) auto

lemma brace_match_spec:
  "brace_match t = map_option (\<lambda>s. (s, None)) (firstToLastBrace t)"
proof (induction t)
  case Nil
  show ?case by (simp add: firstToLastBrace_def)
next
  case (Cons c cs)
  show ?case
  proof (cases "c = CHR ''{''")
    case True
    show ?thesis
    proof (cases "CHR ''}'' \<in> set cs")
      case close: True
      then have "\<not> (\<forall>x\<in>set (rev cs). x \<noteq> CHR ''}'')" by auto
      then have "dropWhile (\<lambda>d. d \<noteq> CHR ''}'') (rev cs @ [c]) =
                 dropWhile (\<lambda>d. d \<noteq> CHR ''}'') (rev cs) @ [c]"
        by (simp add: dropWhile_append)
      with True close show ?thesis
        by (simp add: firstToLastBrace_def upto_last_brace_def)
    next
      case False
      with True show ?thesis
        by (simp add: firstToLastBrace_def brace_match_no_close)
    qed
  next
    case False
    with Cons show ?thesis
      by (simp add: firstToLastBrace_def)
  qed
qed

lemma firstToLastBrace_none:
  "CHR ''{'' \<notin> set t \<or> CHR ''}'' \<notin> set t \<Longrightarrow> firstToLastBrace t = None"
proof -
  assume a: "CHR ''{'' \<notin> set t \<or> CHR ''}'' \<notin> set t"
  have "CHR ''}'' \<notin> set (dropWhile (\<lambda>c. c \<noteq> CHR ''{'') t)"
  proof (cases "CHR ''{'' \<in> set t")
    case True
    with a have "CHR ''}'' \<notin> set t" by simp
    then show ?thesis by (meson set_dropWhileD)
  next
    case False
    then have "dropWhile (\<lambda>c. c \<noteq> CHR ''{'') t = []" by auto
    then show ?thesis by (simp del: dropWhile_eq_Nil_conv)
  qed
  then show ?thesis by (simp add: firstToLastBrace_def Let_def)
qed

text \<open>
  The fenced block that the first regular expression finds is the fenced block of the
  text, as defined with the properties.
\<close>

lemma backtick_not_space: "\<not> js_space (CHR ''`'')"
  by code_simp

lemma starts_with_fence_hd: "starts_with (c # cs) ''```'' \<Longrightarrow> c = CHR ''`''"
  by (simp add: starts_with_def)

lemma until_fence_spec:
  "until_fence b = (if str_includes b ''```'' then Some (beforeFence b) else None)"
proof (induction b)
  case Nil
  show ?case by simp
next
  case (Cons c cs)
  show ?case
  proof (cases "starts_with (c # cs) ''```''")
    case True
    then show ?thesis by (simp add: beforeFence_def)
  next
    case False
    then show ?thesis using Cons by (simp add: beforeFence_def)
  qed
qed

lemma spaces_before_fence:
  assumes "list_all js_space ws"
  shows "str_includes (ws @ r) ''```'' = str_includes r ''```''"
    and "beforeFence (ws @ r) = ws @ beforeFence r"
  using assms
proof (induction ws)
  case Nil
  { case 1 show ?case by simp }
  { case 2 show ?case by simp }
next
  case (Cons w ws)
  { case 1
    then have "\<not> starts_with (w # ws @ r) ''```''"
      using backtick_not_space starts_with_fence_hd by fastforce
    with 1 Cons.IH(1) show ?case by simp }
  { case 2
    then have "\<not> starts_with (w # ws @ r) ''```''"
      using backtick_not_space starts_with_fence_hd by fastforce
    with 2 Cons.IH(2) show ?case by (simp add: beforeFence_def) }
qed

lemma beforeFence_Nil [simp]: "beforeFence [] = []"
  by (simp add: beforeFence_def)

lemma beforeFence_Cons:
  "beforeFence (c # cs) = (if starts_with (c # cs) ''```'' then [] else c # beforeFence cs)"
  by (simp add: beforeFence_def)

lemma trim_after_spaces:
  assumes "list_all js_space ws" and "x = [] \<or> \<not> js_space (hd x)"
  shows "trim (ws @ x) = trimEnd x"
proof -
  from assms(1) have "dropWhile js_space (ws @ x) = dropWhile js_space x"
    by (simp add: dropWhile_append list_all_iff)
  also have "\<dots> = x"
  proof (cases x)
    case Nil
    then show ?thesis by simp
  next
    case (Cons a as)
    with assms(2) have "\<not> js_space a" by simp
    with Cons show ?thesis by simp
  qed
  finally show ?thesis by (simp add: trim_def trimEnd_def)
qed

lemma beforeFence_no_leading_space:
  assumes "b = [] \<or> \<not> js_space (hd b)"
  shows "beforeFence b = [] \<or> \<not> js_space (hd (beforeFence b))"
proof (cases b)
  case Nil
  then show ?thesis by simp
next
  case (Cons c cs)
  with assms have "\<not> js_space c" by simp
  with Cons show ?thesis by (simp add: beforeFence_Cons)
qed

lemma fence_at_parts:
  assumes "map lower_ascii (take 7 s) = ''```json''"
  shows "length s - length (dropWhile js_space (drop 7 s)) = 7 + length (takeWhile js_space (drop 7 s))"
proof -
  from assms have "length (map lower_ascii (take 7 s)) = length ''```json''"
    by (simp only:)
  then have len: "7 \<le> length s" by simp
  have "length (takeWhile js_space (drop 7 s)) + length (dropWhile js_space (drop 7 s)) = length (drop 7 s)"
    by (simp flip: length_append)
  with len show ?thesis by simp
qed

lemma fence_at_spec:
  "fence_at s =
     (if labelled s
      then Some (take (7 + length (beforeFence (drop 7 s)) + 3) s,
                 Some (trim (beforeFence (drop 7 s))))
      else None)"
proof (cases "map lower_ascii (take 7 s) = ''```json''")
  case False
  then show ?thesis by (simp add: fence_at_def labelled_def)
next
  case True
  define ws where "ws = takeWhile js_space (drop 7 s)"
  define body where "body = dropWhile js_space (drop 7 s)"
  have r: "drop 7 s = ws @ body" by (simp add: ws_def body_def)
  have ws: "list_all js_space ws"
    unfolding ws_def list_all_iff by (meson set_takeWhileD)
  have inc: "str_includes (drop 7 s) ''```'' = str_includes body ''```''"
    unfolding r by (rule spaces_before_fence(1) [OF ws])
  have bf: "beforeFence (drop 7 s) = ws @ beforeFence body"
    unfolding r by (rule spaces_before_fence(2) [OF ws])
  have "body = [] \<or> \<not> js_space (hd body)"
    unfolding body_def by (metis hd_dropWhile)
  then have "beforeFence body = [] \<or> \<not> js_space (hd (beforeFence body))"
    by (rule beforeFence_no_leading_space)
  then have tr: "trim (ws @ beforeFence body) = trimEnd (beforeFence body)"
    by (rule trim_after_spaces [OF ws])
  have l: "length s - length body = 7 + length ws"
    unfolding body_def ws_def by (rule fence_at_parts [OF True])
  have at: "fence_at s =
        (case until_fence body of
           None \<Rightarrow> None
         | Some inner \<Rightarrow>
             Some (take (length s - length body + length inner + 3) s, Some (trimEnd inner)))"
    unfolding body_def using True by (simp add: fence_at_def Let_def)
  show ?thesis
  proof (cases "str_includes body ''```''")
    case False
    then have "until_fence body = None" by (simp add: until_fence_spec)
    moreover from False inc have "\<not> labelled s" by (simp add: labelled_def)
    ultimately show ?thesis by (simp add: at)
  next
    case yes: True
    then have u: "until_fence body = Some (beforeFence body)" by (simp add: until_fence_spec)
    from yes inc True have lab: "labelled s" by (simp add: labelled_def)
    have "fence_at s =
        Some (take (7 + length ws + length (beforeFence body) + 3) s, Some (trimEnd (beforeFence body)))"
      by (simp add: at u l)
    also have "\<dots> = Some (take (7 + length (beforeFence (drop 7 s)) + 3) s,
                 Some (trim (beforeFence (drop 7 s))))"
      by (simp add: bf tr add.assoc)
    finally show ?thesis using lab by simp
  qed
qed

lemma fence_match_spec:
  "fence_match t = map_option (\<lambda>(block, inner). (block, Some inner)) (fencedBlock t)"
proof (induction t)
  case Nil
  show ?case by (simp add: fencedBlock_def labelled_def)
next
  case (Cons c cs)
  show ?case
  proof (cases "labelled (c # cs)")
    case True
    then show ?thesis by (simp add: fence_at_spec fencedBlock_def)
  next
    case False
    with Cons show ?thesis by (simp add: fence_at_spec fencedBlock_def)
  qed
qed

text \<open>
  Claim C5, as stated, fails for a reply that has a fenced block and no brace: the block
  is located and decoded, and the analysis returns a result.
\<close>

theorem fenced_reply_without_braces_counterexample:
  "CHR ''{'' \<notin> set fenced_number_reply \<and> CHR ''}'' \<notin> set fenced_number_reply
   \<and> analyzeResumeWithGemini sample_platform (sample_services fenced_number_reply) ''Jane Doe''
       = (Inr empty_result, [])"
proof -
  have b: "CHR ''{'' \<notin> set fenced_number_reply \<and> CHR ''}'' \<notin> set fenced_number_reply"
    by code_simp
  have l: "locatePayload fenced_number_reply =
             Some (''```json'' @ [CHR 0x0A] @ ''5'' @ [CHR 0x0A] @ ''```'', Some ''5'')"
    by code_simp
  have p: "jsonParse sample_platform ''5'' = Some (JNum (Fin 5))"
    by (simp add: sample_platform_def)
  have "analyzeResumeWithGemini sample_platform (sample_services fenced_number_reply) ''Jane Doe''
       = (Inr empty_result, [])"
    using p
    by (simp add: analyzeResumeWithGemini_def analyzeBody_def parseAndMap_def rethrow_def
        jsonTextOf_def sample_services_def l mapResult_number)
  with b show ?thesis by simp
qed

text \<open>
  Claim C5, amended.  For the reply text the model returns, the analysis takes the
  content of the first fenced block labelled \<^verbatim>\<open>json\<close>, in any case, when the text has
  one (the whole block when the content is empty); failing that, the substring from the
  first opening brace to the last closing brace; and with neither it fails with the parse
  error, after logging the whole reply text.  In particular it fails so for a text that
  has no fenced block and lacks an opening or a closing brace.
\<close>

theorem payload_located_or_parse_error:
  assumes "generateContent S (ATS_ANALYSIS_PROMPT S @ resumeText) = Inr text"
  shows "analyzeResumeWithGemini P S resumeText =
           (case fencedBlock text of
              Some (block, inner) \<Rightarrow> rethrow P (parseAndMap P (if inner = [] then block else inner))
            | None \<Rightarrow>
                (case firstToLastBrace text of
                   Some s \<Rightarrow> rethrow P (parseAndMap P s)
                 | None \<Rightarrow>
                     (Inl ''Failed to parse analysis results from Gemini. Try again.'',
                      [(''Gemini response did not contain JSON. Full response:'', text),
                       (''Error analyzing resume with Gemini:'',
                        ''No valid JSON found in response from Gemini. Try again.'')])))
         \<and> (fencedBlock text = None \<and> (CHR ''{'' \<notin> set text \<or> CHR ''}'' \<notin> set text) \<longrightarrow>
              analyzeResumeWithGemini P S resumeText =
                (Inl ''Failed to parse analysis results from Gemini. Try again.'',
                 [(''Gemini response did not contain JSON. Full response:'', text),
                  (''Error analyzing resume with Gemini:'',
                   ''No valid JSON found in response from Gemini. Try again.'')]))"
proof -
  have c: "classify ''No valid JSON found in response from Gemini. Try again.'' =
        ''Failed to parse analysis results from Gemini. Try again.''"
    by code_simp
  have main: "analyzeResumeWithGemini P S resumeText =
           (case fencedBlock text of
              Some (block, inner) \<Rightarrow> rethrow P (parseAndMap P (if inner = [] then block else inner))
            | None \<Rightarrow>
                (case firstToLastBrace text of
                   Some s \<Rightarrow> rethrow P (parseAndMap P s)
                 | None \<Rightarrow>
                     (Inl ''Failed to parse analysis results from Gemini. Try again.'',
                      [(''Gemini response did not contain JSON. Full response:'', text),
                       (''Error analyzing resume with Gemini:'',
                        ''No valid JSON found in response from Gemini. Try again.'')])))"
    using assms
    by (auto simp: analyzeResumeWithGemini_def analyzeBody_def locatePayload_def
          fence_match_spec brace_match_spec jsonTextOf_def rethrow_def message_def c
          split: option.splits)
  have "analyzeResumeWithGemini P S resumeText =
                (Inl ''Failed to parse analysis results from Gemini. Try again.'',
                 [(''Gemini response did not contain JSON. Full response:'', text),
                  (''Error analyzing resume with Gemini:'',
                   ''No valid JSON found in response from Gemini. Try again.'')])"
    if "fencedBlock text = None" "CHR ''{'' \<notin> set text \<or> CHR ''}'' \<notin> set text"
    using main that firstToLastBrace_none [OF that(2)] by simp
  with main show ?thesis by blast
qed

theorem payload_located_or_parse_error_witness:
  "generateContent (sample_services ''Sorry, I cannot help with that.'')
       (ATS_ANALYSIS_PROMPT (sample_services ''Sorry, I cannot help with that.'') @ ''Jane Doe'')
     = Inr ''Sorry, I cannot help with that.''
   \<and> fencedBlock ''Sorry, I cannot help with that.'' = None
   \<and> CHR ''{'' \<notin> set ''Sorry, I cannot help with that.''
   \<and> analyzeResumeWithGemini sample_platform (sample_services ''Sorry, I cannot help with that.'') ''Jane Doe''
     = (Inl ''Failed to parse analysis results from Gemini. Try again.'',
        [(''Gemini response did not contain JSON. Full response:'', ''Sorry, I cannot help with that.''),
         (''Error analyzing resume with Gemini:'',
          ''No valid JSON found in response from Gemini. Try again.'')])
   \<and> fencedBlock prose_fenced_reply =
       Some (''```JSON'' @ [CHR 0x0A] @ ''{}'' @ [CHR 0x0A] @ ''```'', ''{}'')
   \<and> firstToLastBrace prose_fenced_reply =
       Some (''{name}: ```JSON'' @ [CHR 0x0A] @ ''{}'' @ [CHR 0x0A] @ ''``` and {that}'')
   \<and> analyzeResumeWithGemini sample_platform (sample_services prose_fenced_reply) ''Jane Doe''
     = (Inr empty_result, [])"
proof -
  have g: "generateContent (sample_services ''Sorry, I cannot help with that.'')
       (ATS_ANALYSIS_PROMPT (sample_services ''Sorry, I cannot help with that.'') @ ''Jane Doe'')
     = Inr ''Sorry, I cannot help with that.''"
    by (simp add: sample_services_def)
  have f: "fencedBlock ''Sorry, I cannot help with that.'' = None"
    by code_simp
  have b: "CHR ''{'' \<notin> set ''Sorry, I cannot help with that.''"
    by simp
  from f b have h: "fencedBlock ''Sorry, I cannot help with that.'' = None \<and>
      (CHR ''{'' \<notin> set ''Sorry, I cannot help with that.'' \<or>
       CHR ''}'' \<notin> set ''Sorry, I cannot help with that.'')"
    by blast
  note e = payload_located_or_parse_error [OF g, of sample_platform, THEN conjunct2, rule_format, OF h]
  have g2: "generateContent (sample_services prose_fenced_reply)
       (ATS_ANALYSIS_PROMPT (sample_services prose_fenced_reply) @ ''Jane Doe'')
     = Inr prose_fenced_reply"
    by (simp add: sample_services_def)
  have f2: "fencedBlock prose_fenced_reply =
       Some (''```JSON'' @ [CHR 0x0A] @ ''{}'' @ [CHR 0x0A] @ ''```'', ''{}'')"
    by code_simp
  have b2: "firstToLastBrace prose_fenced_reply =
       Some (''{name}: ```JSON'' @ [CHR 0x0A] @ ''{}'' @ [CHR 0x0A] @ ''``` and {that}'')"
    by code_simp
  have p: "parseAndMap sample_platform ''{}'' = (Inr empty_result, [])"
    by (simp add: parseAndMap_def sample_platform_def mapResult_empty_object)
  note t2 = payload_located_or_parse_error [OF g2, of sample_platform, THEN conjunct1]
  from t2 have a2: "analyzeResumeWithGemini sample_platform (sample_services prose_fenced_reply) ''Jane Doe''
     = (Inr empty_result, [])"
    by (simp add: f2 p rethrow_def)
  from g f b e f2 b2 a2 show ?thesis by blast
qed

section \<open>The analysis flow\<close>

lemma locate_fenced_reply:
  "locatePayload fenced_reply =
     Some (''```json'' @ [CHR 0x0A] @ ''{}'' @ [CHR 0x0A] @ ''```'', Some ''{}'')"
  by code_simp

lemma analyze_fenced_reply:
  "analyzeResumeWithGemini sample_platform (sample_services fenced_reply) resumeText
     = (Inr empty_result, [])"
proof -
  have "jsonParse sample_platform ''{}'' = Some (JObj [])"
    by (simp add: sample_platform_def)
  then show ?thesis
    by (simp add: analyzeResumeWithGemini_def analyzeBody_def parseAndMap_def rethrow_def
        jsonTextOf_def sample_services_def locate_fenced_reply mapResult_empty_object)
qed

text \<open>
  Claim C9.  When the upload gives a URL, the extraction a text and the analysis a result,
  and the saving of the record reports an error, \<^verbatim>\<open>analyzeResume\<close> stores the result
  of the analysis in the state, leaves no error in it, and logs the error of the saving.
\<close>

theorem persistence_failure_is_swallowed:
  assumes "uploadResume S userId f = ((Some fileUrl, None), out1)"
    and "fileUrl \<noteq> []"
    and "extractTextFromFile P f = (Inr resumeText, out2)"
    and "analyzeResumeWithGemini P S resumeText = (Inr analysisResult, out3)"
    and "saveAnalysisResults S userId (name f) fileUrl analysisResult = ((None, Some err), out4)"
  shows "analyzeResume P S (Some userId) f st =
           (st\<lparr>results := Some analysisResult, error := None,
               analyzing := False, uploadingToStorage := False\<rparr>,
            out1 @ out2 @ [(''Extracted resume text:'', resumeText)] @ out3 @ out4 @
            [(''Failed to save analysis results:'', err)])"
  using assms by (simp add: analyzeResume_def analyzeAttempt_def)

theorem persistence_failure_is_swallowed_witness:
  "uploadResume (sample_services fenced_reply) ''user-1'' resume_txt =
       ((Some ''https://storage.example/resumes/user-1/resume.txt'', None), [])
   \<and> ''https://storage.example/resumes/user-1/resume.txt'' \<noteq> []
   \<and> extractTextFromFile sample_platform resume_txt = (Inr ''Jane Doe, software engineer'', [])
   \<and> analyzeResumeWithGemini sample_platform (sample_services fenced_reply) ''Jane Doe, software engineer''
       = (Inr empty_result, [])
   \<and> saveAnalysisResults (sample_services fenced_reply) ''user-1'' (name resume_txt)
       ''https://storage.example/resumes/user-1/resume.txt'' empty_result
       = ((None, Some ''permission denied''), [(''Error saving analysis results:'', ''permission denied'')])
   \<and> analyzeResume sample_platform (sample_services fenced_reply) (Some ''user-1'') resume_txt initial_state
       = (\<lparr> results = Some empty_result, error = None, analyzing = False, uploadingToStorage = False \<rparr>,
          [(''Extracted resume text:'', ''Jane Doe, software engineer''),
           (''Error saving analysis results:'', ''permission denied''),
           (''Failed to save analysis results:'', ''permission denied'')])"
proof -
  have up: "uploadResume (sample_services fenced_reply) ''user-1'' resume_txt =
       ((Some ''https://storage.example/resumes/user-1/resume.txt'', None), [])"
    by (simp add: uploadResume_def sample_services_def resume_txt_def)
  have url: "''https://storage.example/resumes/user-1/resume.txt'' \<noteq> []"
    by simp
  have ex: "extractTextFromFile sample_platform resume_txt = (Inr ''Jane Doe, software engineer'', [])"
    by (simp add: extractTextFromFile_def sample_platform_def resume_txt_def)
  have an: "analyzeResumeWithGemini sample_platform (sample_services fenced_reply) ''Jane Doe, software engineer''
       = (Inr empty_result, [])"
    by (rule analyze_fenced_reply)
  have sv: "saveAnalysisResults (sample_services fenced_reply) ''user-1'' (name resume_txt)
       ''https://storage.example/resumes/user-1/resume.txt'' empty_result
       = ((None, Some ''permission denied''), [(''Error saving analysis results:'', ''permission denied'')])"
    by (simp add: saveAnalysisResults_def sample_services_def)
  from persistence_failure_is_swallowed [OF up url ex an sv, of initial_state] up ex an sv
  show ?thesis
    by (simp add: initial_state_def)
qed

section \<open>When the mapping returns\<close>

text \<open>
  The mapping returns a result for every decoded value that is not \<^verbatim>\<open>null\<close> and in
  which no object has an own \<^verbatim>\<open>toString\<close>.
\<close>

lemma tame_fields_keys: "tame_fields kvs \<Longrightarrow> ''toString'' \<notin> set (map fst kvs)"
  by (induction kvs) force+

lemma tame_fields_lookup: "tame_fields kvs \<Longrightarrow> map_of kvs k = Some v \<Longrightarrow> tame v"
  by (induction kvs) (auto split: if_splits)

lemma to_string_tame:
  "tame v \<Longrightarrow> \<exists>s. to_string P v = Inr s"
  "tame_list xs \<Longrightarrow> \<exists>ss. elem_strings P xs = Inr ss"
proof (induction P v and P xs rule: to_string_elem_strings.induct)
  case (6 P kvs)
  then have "tame_fields kvs" by simp
  from tame_fields_keys [OF this] show ?case by simp
next
  case (8 P x xs)
  then show ?case by (cases "x = JNull") auto
qed auto

lemma to_number_tame:
  assumes "case v of Some w \<Rightarrow> tame w | None \<Rightarrow> True"
  shows "\<exists>n. to_number P v = Inr n"
proof (cases v)
  case None
  then show ?thesis by simp
next
  case (Some w)
  with assms have "tame w" by simp
  then obtain s where "to_string P w = Inr s" using to_string_tame(1) by blast
  with Some show ?thesis by (cases w) auto
qed

lemma own_tame: "tame v \<Longrightarrow> own v k = Some w \<Longrightarrow> tame w"
  by (cases v) (auto simp: own_def dest: tame_fields_lookup)

lemma firstPresent_tame:
  assumes "b \<noteq> JNull" "tame b"
  shows "\<exists>v. firstPresent b ks = Inr v \<and> (case v of Some w \<Rightarrow> tame w | None \<Rightarrow> True)"
proof (induction ks)
  case Nil
  show ?case by simp
next
  case (Cons k ks)
  show ?case
  proof (cases "own b k = None \<or> own b k = Some JNull")
    case True
    with Cons assms show ?thesis by (auto simp: prop_get_not_null)
  next
    case False
    then obtain w where w: "own b k = Some w" by auto
    with assms have "tame w" using own_tame by blast
    with False w assms show ?thesis by (simp add: prop_get_not_null)
  qed
qed

lemma breakdownNumber_tame:
  assumes "b \<noteq> JNull" "tame b"
  shows "\<exists>n. breakdownNumber P b ks = Inr n"
proof -
  from firstPresent_tame [OF assms] obtain v where
    v: "firstPresent b ks = Inr v" "case v of Some w \<Rightarrow> tame w | None \<Rightarrow> True"
    by blast
  from to_number_tame [OF v(2)] obtain n where "to_number P v = Inr n" by blast
  with v show ?thesis by (simp add: breakdownNumber_def)
qed

lemma breakdownOf_tame:
  assumes "tame raw"
  shows "breakdownOf (own raw ''breakdown'') \<noteq> JNull \<and> tame (breakdownOf (own raw ''breakdown''))"
proof (cases "own raw ''breakdown''")
  case None
  then show ?thesis by (simp add: breakdownOf_def)
next
  case (Some w)
  with assms have "tame w" using own_tame by blast
  with Some show ?thesis by (cases w) (auto simp: breakdownOf_def)
qed

lemma andString_tame:
  assumes "case v of Some w \<Rightarrow> tame w | None \<Rightarrow> True"
  shows "\<exists>s. andString P v = Inr s"
proof (cases v)
  case None
  then show ?thesis by (simp add: andString_def)
next
  case (Some w)
  with assms have "tame w" by simp
  then obtain s where "to_string P w = Inr s" using to_string_tame(1) by blast
  with Some show ?thesis by (simp add: andString_def)
qed

lemma own_tame_opt: "tame v \<Longrightarrow> (case own v k of Some w \<Rightarrow> tame w | None \<Rightarrow> True)"
  by (auto split: option.splits dest: own_tame)

lemma summaryOf_tame:
  assumes "raw \<noteq> JNull" "tame raw"
  shows "\<exists>s. summaryOf P raw = Inr s"
proof -
  from andString_tame [OF own_tame_opt [OF assms(2)]] obtain a where
    a: "andString P (own raw ''summary'') = Inr a" by blast
  from andString_tame [OF own_tame_opt [OF assms(2)]] obtain b where
    b: "andString P (own raw ''analysisSummary'') = Inr b" by blast
  from a b assms show ?thesis
    by (simp add: summaryOf_def prop_get_not_null)
qed

lemma mapResult_returns:
  assumes "raw \<noteq> JNull" "tame raw"
  shows "\<exists>r. mapResult P raw = Inr r"
proof -
  let ?b = "breakdownOf (own raw ''breakdown'')"
  from breakdownOf_tame [OF assms(2)] have b: "?b \<noteq> JNull" "tame ?b" by simp_all
  from breakdownNumber_tame [OF b] obtain kwd where
    1: "breakdownNumber P ?b [''keywords'', ''keywordsScore''] = Inr kwd" by blast
  from breakdownNumber_tame [OF b] obtain fmt where
    2: "breakdownNumber P ?b [''formatting''] = Inr fmt" by blast
  from breakdownNumber_tame [OF b] obtain experience where
    3: "breakdownNumber P ?b [''experience''] = Inr experience" by blast
  from breakdownNumber_tame [OF b] obtain skills where
    4: "breakdownNumber P ?b [''skills''] = Inr skills" by blast
  from breakdownNumber_tame [OF b] obtain education where
    5: "breakdownNumber P ?b [''education''] = Inr education" by blast
  from summaryOf_tame [OF assms] obtain summ where
    6: "summaryOf P raw = Inr summ" by blast
  from assms(1) 1 2 3 4 5 6 show ?thesis
    by (simp add: mapResult_def prop_get_not_null opt_get_total)
qed

lemma locate_fenced_null_reply:
  "locatePayload fenced_null_reply =
     Some (''```json'' @ [CHR 0x0A] @ ''null'' @ [CHR 0x0A] @ ''```'', Some ''null'')"
  by code_simp

lemma classify_type_error:
  "classify ''Cannot read properties of null'' = ''Failed to analyze resume. Please try again.''"
  by code_simp

text \<open>
  Claim C4.  The mapping is meant never to fail on a decoded value, and it does return a
  result for the empty object and for a score of zero.  On the decoded value \<^verbatim>\<open>null\<close>,
  however, the first property read, \<^verbatim>\<open>raw.score\<close>, throws a \<^verbatim>\<open>TypeError\<close>: a reply
  that fences the text \<^verbatim>\<open>null\<close> is located and decoded, and the analysis then fails
  with the generic message.
\<close>

theorem null_payload_throws:
  "mapResult P JNull = Inl TypeError
   \<and> jsonParse sample_platform ''null'' = Some JNull
   \<and> analyzeResumeWithGemini sample_platform (sample_services fenced_null_reply) resumeText
       = (Inl ''Failed to analyze resume. Please try again.'',
          [(''Error analyzing resume with Gemini:'', ''Cannot read properties of null'')])
   \<and> mapResult P (JObj []) = Inr empty_result
   \<and> mapResult P (JObj [(''score'', JNum (Fin 0))]) = Inr empty_result"
proof -
  have n: "mapResult P JNull = Inl TypeError" for P
    by (simp add: mapResult_def)
  have p: "jsonParse sample_platform ''null'' = Some JNull"
    by (simp add: sample_platform_def)
  have m: "message sample_platform TypeError = ''Cannot read properties of null''"
    by (simp add: message_def sample_platform_def)
  have a: "analyzeResumeWithGemini sample_platform (sample_services fenced_null_reply) resumeText
       = (Inl ''Failed to analyze resume. Please try again.'',
          [(''Error analyzing resume with Gemini:'', ''Cannot read properties of null'')])"
    using p
    by (simp add: analyzeResumeWithGemini_def analyzeBody_def parseAndMap_def rethrow_def
        jsonTextOf_def sample_services_def locate_fenced_null_reply n m classify_type_error)
  have z: "mapResult P (JObj [(''score'', JNum (Fin 0))]) = Inr empty_result"
    by (simp add: mapResult_unfold empty_result_def)
  from n p a z mapResult_empty_object show ?thesis by blast
qed

section \<open>Where the earlier version decides differently\<close>

text \<open>
  The earlier version refuses a payload whose score is absent or zero, and a file of an
  unknown type without looking at it.
\<close>

lemma legacy_refuses_zero_score:
  "validate_legacy (JObj []) = Inl (Error ''Invalid response structure from Gemini API'')"
  "validate_legacy (JObj ((''score'', JNum (Fin 0)) # kvs)) =
     Inl (Error ''Invalid response structure from Gemini API'')"
  by (simp_all add: validate_legacy_def)

lemma legacy_refuses_unknown_type:
  assumes "type f \<noteq> ''text/plain''"
    and "type f \<noteq> ''application/pdf''"
    and "type f \<noteq> ''application/msword''"
    and "type f \<noteq> ''application/vnd.openxmlformats-officedocument.wordprocessingml.document''"
  shows "extractTextFromFile_legacy P f =
           (Inl ''Unsupported file type. Please use PDF or text files.'', [])"
  using assms by (simp add: extractTextFromFile_legacy_def)

end
